theory Spec2Isabelle
  imports Complex_Main "HOL-Library.Stream"
begin

section \<open>fastText orchestration (fasttext.cc): shallow embedding\<close>

text \<open>
  The file under study is \<^verbatim>\<open>fasttext.cc\<close>, the class \<^verbatim>\<open>FastText\<close>. Its collaborators
  (\<^verbatim>\<open>Args\<close>, \<^verbatim>\<open>Dictionary\<close>, \<^verbatim>\<open>Matrix\<close>, \<^verbatim>\<open>Vector\<close>, \<^verbatim>\<open>Model\<close>, \<^verbatim>\<open>utils\<close>) live in other
  files. Conventions of the embedding:
  \<^item> \<^verbatim>\<open>int32_t\<close> and \<^verbatim>\<open>int64_t\<close> are \<open>int\<close>, with the two's complement wrap-around written
    out where the source computes with values that can leave the range: the product of
    the partition offset, the token counters of the training loop, and the counters and
    the product of \<^verbatim>\<open>test\<close>;
  \<^item> the scalar type \<^verbatim>\<open>real\<close> (a C++ \<^verbatim>\<open>float\<close>) and \<^verbatim>\<open>double\<close> are the HOL reals: rounding is
    not modelled; the one place where IEEE special values decide the outcome (a division
    by zero in \<^verbatim>\<open>test\<close>) is modelled explicitly;
  \<^item> a random generator is the stream of the uniform variates behind its successive draws;
  \<^item> the optimizer's \<^verbatim>\<open>update\<close> is recorded as an event in a trace kept in the optimizer
    state, so that the number and the arguments of the updates can be stated.
\<close>

subsection \<open>Integer division of C++\<close>

text \<open>C++ \<^verbatim>\<open>/\<close> on integers truncates towards zero.\<close>

definition cpp_div :: "int \<Rightarrow> int \<Rightarrow> int" where
  "cpp_div a b = (if (a < 0) = (b < 0) then \<bar>a\<bar> div \<bar>b\<bar> else - (\<bar>a\<bar> div \<bar>b\<bar>))"

text \<open>What a 32-bit and a 64-bit signed integer hold of a value (two's complement).\<close>

definition wrap32 :: "int \<Rightarrow> int" where
  "wrap32 x = (x + 2 ^ 31) mod 2 ^ 32 - 2 ^ 31"

definition wrap64 :: "int \<Rightarrow> int" where
  "wrap64 x = (x + 2 ^ 63) mod 2 ^ 64 - 2 ^ 63"

subsection \<open>Corpus partition (trainThread, first statement)\<close>

text \<open>
  \<^verbatim>\<open>utils::seek(ifs, threadId * utils::size(ifs) / args_->thread)\<close>: the byte offset worker
  \<open>threadId\<close> seeks to, for a file of \<open>fsize\<close> bytes and \<open>thread\<close> workers. The size is a
  64-bit integer, so the product is computed in 64 bits, and divided by the thread count.
\<close>

definition trainThread_offset :: "int \<Rightarrow> int \<Rightarrow> int \<Rightarrow> int" where
  "trainThread_offset threadId fsize thread = cpp_div (wrap64 (threadId * fsize)) thread"

subsection \<open>Collaborators: configuration, vocabulary, matrices, optimizer\<close>

text \<open>\<^verbatim>\<open>enum class model_name\<close> and \<^verbatim>\<open>enum class entry_type\<close>.\<close>

datatype model_name = model_cbow | model_sg | model_sup

datatype entry_type = entry_word | entry_label

text \<open>\<^verbatim>\<open>Args\<close>: the fields this file reads.\<close>

record Args =
  dim :: int
  ws :: int
  epoch :: int
  lr :: real
  thread :: int
  wordNgrams :: int
  bucket :: int
  lrUpdateRate :: int
  verbose :: int
  model :: model_name

text \<open>
  A random generator (\<^verbatim>\<open>std::minstd_rand\<close>) is represented by what its draws are going to
  get: a stream of reals, the fractional part of each being the variate, uniformly
  distributed on \<open>[0, 1)\<close>, behind one draw. How the generator and a distribution realise
  a variate (how many raw values a draw consumes) belongs to the C++ library.
  \<^verbatim>\<open>std::uniform_int_distribution<>(a, b)\<close> is the law the C++ standard prescribes: each of
  the \<open>b - a + 1\<close> integers of \<open>[a, b]\<close> with the same probability. On a variate \<open>u\<close> it
  gives \<open>a + \<lfloor>u * (b - a + 1)\<rfloor>\<close>, so that each integer is drawn exactly for the variates of
  an interval of length \<open>1 / (b - a + 1)\<close>. The interval \<open>[a, b]\<close> must not be empty, as the
  library requires.
\<close>

type_synonym rng = "real stream"

definition uniform :: "int \<Rightarrow> int \<Rightarrow> rng \<Rightarrow> int \<times> rng" where
  "uniform a b g = (a + \<lfloor>frac (shd g) * real_of_int (b - a + 1)\<rfloor>, stl g)"

text \<open>
  \<^verbatim>\<open>Dictionary\<close>, by the member functions that the functions embedded here call. \<open>getNgrams_word\<close> is
  \<^verbatim>\<open>getNgrams(const std::string&)\<close>, \<open>getNgrams\<close> is \<^verbatim>\<open>getNgrams(int32_t)\<close>. \<open>getLine\<close> is
  given the text of the line it consumes and the generator; it returns the number of
  tokens read, the word ids, the label ids, and the generator afterwards.
\<close>

record Dictionary =
  getNgrams_word :: "string \<Rightarrow> int list"
  getNgrams :: "int \<Rightarrow> int list"
  getLine :: "string \<Rightarrow> rng \<Rightarrow> (nat \<times> int list \<times> int list) \<times> rng"
  addNgrams :: "int list \<Rightarrow> int \<Rightarrow> int list"
  getLabel :: "int \<Rightarrow> string"
  getCounts :: "entry_type \<Rightarrow> int list"
  ntokens :: int

text \<open>
  \<^verbatim>\<open>Matrix\<close>: \<open>mat_m\<close> rows, \<open>mat_n\<close> columns, row-major \<open>mat_data\<close> (the members \<^verbatim>\<open>m_\<close>,
  \<^verbatim>\<open>n_\<close>, \<^verbatim>\<open>data_\<close>; the layout is the one this file itself relies on in \<^verbatim>\<open>loadVectors\<close>:
  \<^verbatim>\<open>data_[i * dim + j]\<close>). A \<^verbatim>\<open>Vector\<close> is the list of its components.
\<close>

record Matrix =
  mat_m :: int
  mat_n :: int
  mat_data :: "real list"

type_synonym Vector = "real list"

text \<open>
  Modelled from the spec: \<^verbatim>\<open>Vector::zero\<close>, \<^verbatim>\<open>Vector::addRow\<close> and \<^verbatim>\<open>Vector::mul\<close> (vector.cc is
  not part of the file under study). \<open>zero\<close> clears every component, \<open>addRow\<close> adds row \<open>i\<close>
  of a matrix componentwise, \<open>mul\<close> scales every component. A row index outside the
  matrix, or a vector whose length is not the number of columns, is a failure (\<open>None\<close>).
\<close>

definition Vector_zero :: "Vector \<Rightarrow> Vector" where
  "Vector_zero vec = map (\<lambda>_. 0) vec"

definition Vector_addRow :: "Vector \<Rightarrow> Matrix \<Rightarrow> int \<Rightarrow> Vector option" where
  "Vector_addRow vec A i =
     (if 0 \<le> i \<and> i < mat_m A \<and> int (length vec) = mat_n A
      then Some (map (\<lambda>j. vec ! j + mat_data A ! (nat (i * mat_n A) + j)) [0..<length vec])
      else None)"

definition Vector_mul :: "Vector \<Rightarrow> real \<Rightarrow> Vector" where
  "Vector_mul vec a = map (\<lambda>x. x * a) vec"

text \<open>
  \<^verbatim>\<open>Model\<close>, the optimizer instance: the two shared matrices, the configuration, its own
  generator, the target counts handed to \<^verbatim>\<open>setTargetCounts\<close>, and the trace of the
  \<^verbatim>\<open>update(input, target, lr)\<close> calls made on it (the optimization step itself belongs to
  the kernel, outside this file).
\<close>

record Model =
  wi :: Matrix
  wo :: Matrix
  margs :: Args
  rng :: rng
  targetCounts :: "int list"
  updates :: "(int list \<times> int \<times> real) list"

definition Model_new :: "Matrix \<Rightarrow> Matrix \<Rightarrow> Args \<Rightarrow> rng \<Rightarrow> Model" where
  "Model_new A B a g =
     \<lparr>wi = A, wo = B, margs = a, rng = g, targetCounts = [], updates = []\<rparr>"

definition setTargetCounts :: "Model \<Rightarrow> int list \<Rightarrow> Model" where
  "setTargetCounts mdl counts = mdl\<lparr>targetCounts := counts\<rparr>"

definition Model_update :: "Model \<Rightarrow> int list \<Rightarrow> int \<Rightarrow> real \<Rightarrow> Model" where
  "Model_update mdl inp target rate = mdl\<lparr>updates := updates mdl @ [(inp, target, rate)]\<rparr>"

subsection \<open>The class FastText\<close>

text \<open>
  The members \<^verbatim>\<open>args_\<close>, \<^verbatim>\<open>dict_\<close>, \<^verbatim>\<open>input_\<close>, \<^verbatim>\<open>output_\<close>, \<^verbatim>\<open>model_\<close> (a trailing underscore
  is not a name in HOL, hence the prefix).
\<close>

record FastText =
  ft_args :: Args
  ft_dict :: Dictionary
  ft_input :: Matrix
  ft_output :: Matrix
  ft_model :: Model

subsection \<open>getVector\<close>

text \<open>The loop \<^verbatim>\<open>for (it = ngrams.begin(); ...) vec.addRow(*input_, *it)\<close>.\<close>

fun getVector_loop :: "Vector \<Rightarrow> Matrix \<Rightarrow> int list \<Rightarrow> Vector option" where
  "getVector_loop vec A [] = Some vec"
| "getVector_loop vec A (i # ids) =
     (case Vector_addRow vec A i of
        None \<Rightarrow> None
      | Some vec' \<Rightarrow> getVector_loop vec' A ids)"

definition getVector :: "FastText \<Rightarrow> Vector \<Rightarrow> string \<Rightarrow> Vector option" where
  "getVector ft vec w =
     (let ngrams = getNgrams_word (ft_dict ft) w in
      case getVector_loop (Vector_zero vec) (ft_input ft) ngrams of
        None \<Rightarrow> None
      | Some v \<Rightarrow>
          Some (if length ngrams > 0 then Vector_mul v (1 / real (length ngrams)) else v))"

text \<open>
  The specification's words: the elementwise mean of the rows \<open>ids\<close> of a matrix, as a
  vector of \<open>d\<close> components.
\<close>

definition mean_of_rows :: "Matrix \<Rightarrow> int list \<Rightarrow> nat \<Rightarrow> Vector" where
  "mean_of_rows A ids d =
     map (\<lambda>j. (\<Sum>i\<leftarrow>ids. mat_data A ! (nat (i * mat_n A) + j)) / real (length ids)) [0..<d]"

subsection \<open>Objective strategies\<close>

text \<open>
  \<^verbatim>\<open>supervised\<close>, \<^verbatim>\<open>cbow\<close>, \<^verbatim>\<open>skipgram\<close>. The parameters \<^verbatim>\<open>model\<close> and \<^verbatim>\<open>lr\<close> of the source are
  called \<open>mdl\<close> and \<open>rate\<close> here (the names are taken by the fields of \<open>Args\<close>).
\<close>

definition supervised :: "Model \<Rightarrow> real \<Rightarrow> int list \<Rightarrow> int list \<Rightarrow> Model" where
  "supervised mdl rate line labels =
     (if length labels = 0 \<or> length line = 0 then mdl
      else
        let (i, g) = uniform 0 (int (length labels) - 1) (rng mdl)
        in Model_update (mdl\<lparr>rng := g\<rparr>) line (labels ! nat i) rate)"

text \<open>The index \<^verbatim>\<open>i = uniform(model.rng)\<close> that \<^verbatim>\<open>supervised\<close> draws when the generator is \<open>g\<close>.\<close>

definition label_index :: "int list \<Rightarrow> rng \<Rightarrow> nat" where
  "label_index labels g = nat (fst (uniform 0 (int (length labels) - 1) g))"

text \<open>
  The test \<^verbatim>\<open>c != 0 && w + c >= 0 && w + c < line.size()\<close> shared by the two window loops.
\<close>

definition in_window :: "int list \<Rightarrow> nat \<Rightarrow> int \<Rightarrow> bool" where
  "in_window line w c = (c \<noteq> 0 \<and> int w + c \<ge> 0 \<and> int w + c < int (length line))"

text \<open>The inner loop of \<^verbatim>\<open>cbow\<close>: \<open>bow\<close> after \<^verbatim>\<open>for (c = -boundary; c <= boundary; c++)\<close>.\<close>

definition cbow_bow :: "Dictionary \<Rightarrow> int list \<Rightarrow> nat \<Rightarrow> int \<Rightarrow> int list" where
  "cbow_bow d line w boundary =
     fold (\<lambda>c bow. if in_window line w c
                    then bow @ getNgrams d (line ! nat (int w + c)) else bow)
          [- boundary..boundary] []"

definition cbow_step :: "FastText \<Rightarrow> real \<Rightarrow> int list \<Rightarrow> nat \<Rightarrow> Model \<Rightarrow> Model" where
  "cbow_step ft rate line w mdl =
     (let (boundary, g) = uniform 1 (ws (ft_args ft)) (rng mdl);
          bow = cbow_bow (ft_dict ft) line w boundary
      in Model_update (mdl\<lparr>rng := g\<rparr>) bow (line ! w) rate)"

definition cbow :: "FastText \<Rightarrow> Model \<Rightarrow> real \<Rightarrow> int list \<Rightarrow> Model" where
  "cbow ft mdl rate line = fold (cbow_step ft rate line) [0..<length line] mdl"

text \<open>The inner loop of \<^verbatim>\<open>skipgram\<close>: one update for each context position.\<close>

definition skipgram_window ::
  "int list \<Rightarrow> real \<Rightarrow> int list \<Rightarrow> nat \<Rightarrow> int \<Rightarrow> Model \<Rightarrow> Model" where
  "skipgram_window ngrams rate line w boundary mdl =
     fold (\<lambda>c m. if in_window line w c
                  then Model_update m ngrams (line ! nat (int w + c)) rate else m)
          [- boundary..boundary] mdl"

definition skipgram_step :: "FastText \<Rightarrow> real \<Rightarrow> int list \<Rightarrow> nat \<Rightarrow> Model \<Rightarrow> Model" where
  "skipgram_step ft rate line w mdl =
     (let (boundary, g) = uniform 1 (ws (ft_args ft)) (rng mdl);
          ngrams = getNgrams (ft_dict ft) (line ! w)
      in skipgram_window ngrams rate line w boundary (mdl\<lparr>rng := g\<rparr>))"

definition skipgram :: "FastText \<Rightarrow> Model \<Rightarrow> real \<Rightarrow> int list \<Rightarrow> Model" where
  "skipgram ft mdl rate line = fold (skipgram_step ft rate line) [0..<length line] mdl"

text \<open>The updates an objective adds to the trace: those of \<open>mdl'\<close> beyond those of \<open>mdl\<close>.\<close>

definition new_updates :: "Model \<Rightarrow> Model \<Rightarrow> (int list \<times> int \<times> real) list" where
  "new_updates mdl mdl' = drop (length (updates mdl)) (updates mdl')"

text \<open>
  The specification's words for the window: the positions of a line of \<open>n\<close> tokens within
  radius \<open>b\<close> of position \<open>w\<close>, other than \<open>w\<close> itself. \<open>radius ft mdl w\<close> is the radius
  drawn at position \<open>w\<close>: the \<open>w\<close>-th draw from the generator of \<open>mdl\<close>.
\<close>

definition context_positions :: "nat \<Rightarrow> nat \<Rightarrow> int \<Rightarrow> nat set" where
  "context_positions n w b = {p. p < n \<and> p \<noteq> w \<and> \<bar>int p - int w\<bar> \<le> b}"

definition radius :: "FastText \<Rightarrow> Model \<Rightarrow> nat \<Rightarrow> int" where
  "radius ft mdl w = fst (uniform 1 (ws (ft_args ft)) (sdrop w (rng mdl)))"

text \<open>The updates \<^verbatim>\<open>skipgram\<close> makes at position \<open>w\<close> when the radius drawn there is \<open>b\<close>.\<close>

definition skipgram_pairs ::
  "FastText \<Rightarrow> real \<Rightarrow> int list \<Rightarrow> nat \<Rightarrow> int \<Rightarrow> (int list \<times> int \<times> real) list" where
  "skipgram_pairs ft rate line w b =
     map (\<lambda>c. (getNgrams (ft_dict ft) (line ! w), line ! nat (int w + c), rate))
         (filter (in_window line w) [- b..b])"

subsection \<open>Streams and printed output\<close>

text \<open>
  An input stream read line by line (\<^verbatim>\<open>test\<close>, \<^verbatim>\<open>predict\<close>) is the list of the lines not read
  yet; \<^verbatim>\<open>in.peek() != EOF\<close> holds when the list is not empty, and \<^verbatim>\<open>getLine\<close> consumes its
  head. What is printed on \<^verbatim>\<open>std::cout\<close> is the list of the items inserted.
  A \<^verbatim>\<open>double\<close> that is printed is a real number or one of the IEEE special values a
  division by zero produces.
\<close>

type_synonym istream = "string list"

datatype fval = Num real | NaN | PosInf | NegInf

datatype out = Str string | IntOut int | RealOut fval | Endl

text \<open>IEEE division of a \<^verbatim>\<open>double\<close> by an integer converted to \<^verbatim>\<open>double\<close>.\<close>

definition fdiv :: "real \<Rightarrow> int \<Rightarrow> fval" where
  "fdiv x y =
     (if y \<noteq> 0 then Num (x / real_of_int y)
      else if x = 0 then NaN else if 0 < x then PosInf else NegInf)"

subsection \<open>test\<close>

text \<open>
  \<open>Model_predict\<close> stands for \<^verbatim>\<open>model_->predict\<close>, the forward pass of the optimization kernel
  (outside this file): the scored label ids it returns for the input ids and \<open>k\<close>.
  The loop state is \<open>(precision, nexamples, nlabels)\<close> and the generator \<^verbatim>\<open>model_->rng\<close>.
  The counters \<^verbatim>\<open>nexamples\<close> and \<^verbatim>\<open>nlabels\<close> and the parameter \<^verbatim>\<open>k\<close> are \<^verbatim>\<open>int32_t\<close>: the
  increments and the product \<^verbatim>\<open>k * nexamples\<close> are computed in 32 bits.
\<close>

definition count_hits :: "(real \<times> int) list \<Rightarrow> int list \<Rightarrow> real \<Rightarrow> real" where
  "count_hits modelPredictions labels precision =
     fold (\<lambda>it p. if snd it \<in> set labels then p + 1 else p) modelPredictions precision"

fun test_loop ::
  "(int list \<Rightarrow> int \<Rightarrow> (real \<times> int) list) \<Rightarrow> FastText \<Rightarrow> int \<Rightarrow> istream
     \<Rightarrow> real \<times> int \<times> int \<Rightarrow> rng \<Rightarrow> (real \<times> int \<times> int) \<times> rng" where
  "test_loop Model_predict ft k [] acc g = (acc, g)"
| "test_loop Model_predict ft k (l # rest) (precision, nexamples, nlabels) g =
     (let ((n, line0, labels), g') = getLine (ft_dict ft) l g;
          line = addNgrams (ft_dict ft) line0 (wordNgrams (ft_args ft))
      in if length labels > 0 \<and> length line > 0
         then test_loop Model_predict ft k rest
                (count_hits (Model_predict line k) labels precision,
                 wrap32 (nexamples + 1), wrap32 (nlabels + int (length labels))) g'
         else test_loop Model_predict ft k rest (precision, nexamples, nlabels) g')"

definition test ::
  "(int list \<Rightarrow> int \<Rightarrow> (real \<times> int) list) \<Rightarrow> FastText \<Rightarrow> istream \<Rightarrow> int \<Rightarrow> out list" where
  "test Model_predict ft inp k =
     (let ((precision, nexamples, nlabels), g) =
            test_loop Model_predict ft k inp (0, 0, 0) (rng (ft_model ft))
      in [Str ''P@'', IntOut k, Str '': '',
          RealOut (fdiv precision (wrap32 (k * nexamples))), Endl,
          Str ''R@'', IntOut k, Str '': '', RealOut (fdiv precision nlabels), Endl,
          Str ''Number of examples: '', IntOut nexamples, Endl])"

text \<open>The three lines \<^verbatim>\<open>test\<close> prints, for the values \<open>p\<close>, \<open>r\<close> and \<open>n\<close> it reports.\<close>

definition test_report :: "int \<Rightarrow> fval \<Rightarrow> fval \<Rightarrow> int \<Rightarrow> out list" where
  "test_report k p r n =
     [Str ''P@'', IntOut k, Str '': '', RealOut p, Endl,
      Str ''R@'', IntOut k, Str '': '', RealOut r, Endl,
      Str ''Number of examples: '', IntOut n, Endl]"

text \<open>
  The specification's words for the evaluation: the examples of a stream (token ids after
  \<^verbatim>\<open>addNgrams\<close>, label ids), those that count, and the true positives of one example.
\<close>

fun read_examples :: "FastText \<Rightarrow> istream \<Rightarrow> rng \<Rightarrow> (int list \<times> int list) list" where
  "read_examples ft [] g = []"
| "read_examples ft (l # rest) g =
     (let ((n, line0, labels), g') = getLine (ft_dict ft) l g
      in (addNgrams (ft_dict ft) line0 (wordNgrams (ft_args ft)), labels)
           # read_examples ft rest g')"

definition counted :: "(int list \<times> int list) list \<Rightarrow> (int list \<times> int list) list" where
  "counted exs = filter (\<lambda>ex. snd ex \<noteq> [] \<and> fst ex \<noteq> []) exs"

definition true_positives ::
  "(int list \<Rightarrow> int \<Rightarrow> (real \<times> int) list) \<Rightarrow> int \<Rightarrow> int list \<times> int list \<Rightarrow> nat" where
  "true_positives Model_predict k ex =
     length (filter (\<lambda>it. snd it \<in> set (snd ex)) (Model_predict (fst ex) k))"

subsection \<open>predict\<close>

text \<open>
  \<open>predict_into\<close> is \<^verbatim>\<open>predict(std::istream&, int32_t, std::vector<...>& predictions)\<close>, given
  the line that \<^verbatim>\<open>getLine\<close> consumes: it returns \<open>predictions\<close> as the call leaves it, and the
  generator. \<open>predict\<close> is \<^verbatim>\<open>predict(std::istream&, int32_t, bool)\<close>; \<open>predict_loop\<close> is its
  \<^verbatim>\<open>while\<close> loop, whose variable \<open>predictions\<close> is declared before the loop.
\<close>

definition predict_into ::
  "(int list \<Rightarrow> int \<Rightarrow> (real \<times> int) list) \<Rightarrow> FastText \<Rightarrow> string \<Rightarrow> int
     \<Rightarrow> (real \<times> string) list \<Rightarrow> rng \<Rightarrow> (real \<times> string) list \<times> rng" where
  "predict_into Model_predict ft l k predictions g =
     (let ((n, words0, labels), g') = getLine (ft_dict ft) l g;
          words = addNgrams (ft_dict ft) words0 (wordNgrams (ft_args ft))
      in if words = [] then (predictions, g')
         else (map (\<lambda>it. (fst it, getLabel (ft_dict ft) (snd it))) (Model_predict words k), g'))"

fun print_predictions :: "bool \<Rightarrow> bool \<Rightarrow> (real \<times> string) list \<Rightarrow> out list" where
  "print_predictions print_prob first [] = []"
| "print_predictions print_prob first (it # rest) =
     (if first then [] else [Str '' ''])
     @ [Str (snd it)]
     @ (if print_prob then [Str '' '', RealOut (Num (exp (fst it)))] else [])
     @ print_predictions print_prob False rest"

fun predict_loop ::
  "(int list \<Rightarrow> int \<Rightarrow> (real \<times> int) list) \<Rightarrow> FastText \<Rightarrow> int \<Rightarrow> bool \<Rightarrow> istream
     \<Rightarrow> (real \<times> string) list \<Rightarrow> rng \<Rightarrow> out list" where
  "predict_loop Model_predict ft k print_prob [] predictions g = []"
| "predict_loop Model_predict ft k print_prob (l # rest) predictions g =
     (let (predictions', g') = predict_into Model_predict ft l k predictions g
      in (if predictions' = [] then [Str ''n/a'', Endl]
          else print_predictions print_prob True predictions' @ [Endl])
         @ predict_loop Model_predict ft k print_prob rest predictions' g')"

definition predict ::
  "(int list \<Rightarrow> int \<Rightarrow> (real \<times> int) list) \<Rightarrow> FastText \<Rightarrow> istream \<Rightarrow> int \<Rightarrow> bool \<Rightarrow> out list" where
  "predict Model_predict ft inp k print_prob =
     predict_loop Model_predict ft k print_prob inp [] (rng (ft_model ft))"

subsection \<open>saveModel and loadModel\<close>

text \<open>
  Modelled from the spec: the serializers of the collaborators (\<^verbatim>\<open>Args::save/load\<close>,
  \<^verbatim>\<open>Dictionary::save/load\<close>, \<^verbatim>\<open>Matrix::save/load\<close> are not in the file under study). A binary
  stream is a list of bytes of some type \<open>'b\<close>; a \<open>save\<close> gives the bytes it appends to the
  stream; a \<open>load\<close> fills a freshly constructed object from the front of a stream and gives
  the object and the rest of the stream. A \<open>load\<close> has no way to fail: whatever the stream
  holds, the object has some value afterwards. The \<^verbatim>\<open>Dictionary\<close> is constructed from the
  pointer \<^verbatim>\<open>args_\<close> and loaded after the configuration, so that it works with the
  configuration as loaded: \<open>load_Dictionary\<close> is given it.
\<close>

record 'b serializers =
  save_Args :: "Args \<Rightarrow> 'b list"
  load_Args :: "'b list \<Rightarrow> Args \<times> 'b list"
  save_Dictionary :: "Dictionary \<Rightarrow> 'b list"
  load_Dictionary :: "Args \<Rightarrow> 'b list \<Rightarrow> Dictionary \<times> 'b list"
  save_Matrix :: "Matrix \<Rightarrow> 'b list"
  load_Matrix :: "'b list \<Rightarrow> Matrix \<times> 'b list"

text \<open>
  What the specification asks of the serializers, for the four parts of one object \<open>ft\<close>:
  each part is self-delimiting (there is no framing beyond what its serializer embeds);
  the vocabulary, loaded under the configuration read back, and the two matrices come back
  as they were saved; of the configuration, which may hold fields that are not persisted,
  only the objective selector is required to come back.
\<close>

definition parts_round_trip :: "'b serializers \<Rightarrow> FastText \<Rightarrow> bool" where
  "parts_round_trip c ft =
     ((\<forall>rest. snd (load_Args c (save_Args c (ft_args ft) @ rest)) = rest
          \<and> model (fst (load_Args c (save_Args c (ft_args ft) @ rest))) = model (ft_args ft)
          \<and> (\<forall>rest'. load_Dictionary c (fst (load_Args c (save_Args c (ft_args ft) @ rest)))
                         (save_Dictionary c (ft_dict ft) @ rest')
                       = (ft_dict ft, rest')))
      \<and> (\<forall>rest. load_Matrix c (save_Matrix c (ft_input ft) @ rest) = (ft_input ft, rest))
      \<and> (\<forall>rest. load_Matrix c (save_Matrix c (ft_output ft) @ rest) = (ft_output ft, rest)))"

text \<open>The fatal errors: a message and \<^verbatim>\<open>exit(EXIT_FAILURE)\<close>.\<close>

datatype error = CannotOpenForSaving | CannotOpenForLoading

text \<open>
  \<^verbatim>\<open>saveModel\<close>: \<open>is_open\<close> tells whether the output file could be opened; the result is the
  content of the file.
\<close>

definition saveModel :: "'b serializers \<Rightarrow> FastText \<Rightarrow> bool \<Rightarrow> error + 'b list" where
  "saveModel c ft is_open =
     (if \<not> is_open then Inl CannotOpenForSaving
      else
        let ofs = [];
            ofs = ofs @ save_Args c (ft_args ft);
            ofs = ofs @ save_Dictionary c (ft_dict ft);
            ofs = ofs @ save_Matrix c (ft_input ft);
            ofs = ofs @ save_Matrix c (ft_output ft)
        in Inr ofs)"

text \<open>
  \<^verbatim>\<open>loadModel(std::istream&)\<close>. \<open>seeded\<close> gives the generator constructed from a seed
  (\<^verbatim>\<open>Model\<close> seeds its generator with its last constructor argument). The result is the
  object loaded and what is left of the stream.
\<close>

definition loadModel_stream ::
  "'b serializers \<Rightarrow> (int \<Rightarrow> rng) \<Rightarrow> 'b list \<Rightarrow> FastText \<times> 'b list" where
  "loadModel_stream c seeded inp =
     (let (a, in1) = load_Args c inp;
          (d, in2) = load_Dictionary c a in1;
          (A, in3) = load_Matrix c in2;
          (B, in4) = load_Matrix c in3;
          mdl = Model_new A B a (seeded 0);
          mdl = (if model a = model_sup
                 then setTargetCounts mdl (getCounts d entry_label)
                 else setTargetCounts mdl (getCounts d entry_word))
      in (\<lparr>ft_args = a, ft_dict = d, ft_input = A, ft_output = B, ft_model = mdl\<rparr>, in4))"

text \<open>
  \<^verbatim>\<open>loadModel(const std::string&)\<close>: \<open>file\<close> is the content of the file, \<open>None\<close> when it
  cannot be opened.
\<close>

definition loadModel ::
  "'b serializers \<Rightarrow> (int \<Rightarrow> rng) \<Rightarrow> 'b list option \<Rightarrow> error + FastText \<times> 'b list" where
  "loadModel c seeded file =
     (case file of
        None \<Rightarrow> Inl CannotOpenForLoading
      | Some ifs \<Rightarrow> Inr (loadModel_stream c seeded ifs))"

subsection \<open>trainThread and the workers of train\<close>

text \<open>
  \<^verbatim>\<open>train\<close> sets the member \<^verbatim>\<open>tokenCount\<close> to 0 and starts \<^verbatim>\<open>args_->thread\<close> threads, each
  running \<^verbatim>\<open>trainThread\<close> on the same object: \<^verbatim>\<open>tokenCount\<close> is the one counter that all
  workers read and add to. A worker reads it in the loop test (line 262), reads it again
  to compute \<^verbatim>\<open>progress\<close> (line 263), and adds to it on line 276; everything else in the
  loop works on locals of the worker. So a worker is modelled by the steps between these
  accesses, each step holding one access, and the workers of \<^verbatim>\<open>train\<close> by the
  interleavings of their steps. (Nothing in the loop waits for another worker: there is no
  lock in this file.)

  The locals of one worker: where it is in the loop, \<^verbatim>\<open>progress\<close>, \<^verbatim>\<open>localTokenCount\<close>,
  \<^verbatim>\<open>model\<close>, \<^verbatim>\<open>ifs\<close> (the stream of the lines its successive \<^verbatim>\<open>getLine\<close> calls consume), and
  the progress values it has handed to \<^verbatim>\<open>printInfo\<close>.
\<close>

datatype pc = pc_test | pc_read | pc_flush | pc_done

record worker =
  pc :: pc
  wprogress :: real
  localTokenCount :: int
  wmodel :: Model
  ifs :: "string stream"
  reports :: "real list"

text \<open>The value of \<^verbatim>\<open>args_->epoch * ntokens\<close>, a product of 64-bit integers.\<close>

definition trainThread_budget :: "FastText \<Rightarrow> int" where
  "trainThread_budget ft = wrap64 (epoch (ft_args ft) * ntokens (ft_dict ft))"

text \<open>
  One step of the worker \<open>threadId\<close>, on the value \<open>tc\<close> of \<^verbatim>\<open>tokenCount\<close> that it finds; the
  result is the value of \<^verbatim>\<open>tokenCount\<close> that it leaves, and the worker.
  \<^item> \<open>pc_test\<close>: the loop test of line 262; when it fails, lines 283 to 287.
  \<^item> \<open>pc_read\<close>: lines 263 to 274, from the read of \<^verbatim>\<open>tokenCount\<close> for \<^verbatim>\<open>progress\<close> to the
    updates of the objective.
  \<^item> \<open>pc_flush\<close>: lines 275 to 281, with the addition to \<^verbatim>\<open>tokenCount\<close>.
\<close>

definition trainThread_step :: "FastText \<Rightarrow> int \<Rightarrow> int \<Rightarrow> worker \<Rightarrow> int \<times> worker" where
  "trainThread_step ft threadId tc s =
     (let a = ft_args ft; d = ft_dict ft
      in case pc s of
           pc_test \<Rightarrow>
             if tc < trainThread_budget ft then (tc, s\<lparr>pc := pc_read\<rparr>)
             else (tc, (if threadId = 0 \<and> verbose a > 0
                        then s\<lparr>reports := reports s @ [1]\<rparr> else s)\<lparr>pc := pc_done\<rparr>)
         | pc_read \<Rightarrow>
             (let progress = real_of_int tc / real_of_int (trainThread_budget ft);
                  rate = lr a * (1 - progress);
                  ((n, line, labels), g) = getLine d (shd (ifs s)) (rng (wmodel s));
                  mdl = (wmodel s)\<lparr>rng := g\<rparr>;
                  local = wrap64 (localTokenCount s + int n);
                  mdl = (if model a = model_sup
                         then supervised mdl rate (addNgrams d line (wordNgrams a)) labels
                         else if model a = model_cbow then cbow ft mdl rate line
                         else if model a = model_sg then skipgram ft mdl rate line
                         else mdl)
              in (tc, s\<lparr>pc := pc_flush, wprogress := progress, wmodel := mdl,
                        ifs := stl (ifs s), localTokenCount := local\<rparr>))
         | pc_flush \<Rightarrow>
             if localTokenCount s > lrUpdateRate a
             then (wrap64 (tc + localTokenCount s),
                   s\<lparr>pc := pc_test, localTokenCount := 0,
                     reports := (if threadId = 0 \<and> verbose a > 1
                                 then reports s @ [wprogress s] else reports s)\<rparr>)
             else (tc, s\<lparr>pc := pc_test\<rparr>)
         | pc_done \<Rightarrow> (tc, s))"

text \<open>
  The worker when it reaches its loop (lines 249 to 260). \<open>seeded\<close> gives the generator
  constructed from a seed, \<open>open_at\<close> the input file as read from a byte offset, \<open>fsize\<close>
  is \<^verbatim>\<open>utils::size(ifs)\<close>. \<^verbatim>\<open>progress\<close> has no value before line 263 gives it one.
\<close>

definition trainThread_init ::
  "(int \<Rightarrow> rng) \<Rightarrow> (int \<Rightarrow> string stream) \<Rightarrow> int \<Rightarrow> FastText \<Rightarrow> int \<Rightarrow> worker" where
  "trainThread_init seeded open_at fsize ft threadId =
     (let a = ft_args ft; d = ft_dict ft;
          ifs0 = open_at (trainThread_offset threadId fsize (thread a));
          mdl = Model_new (ft_input ft) (ft_output ft) a (seeded threadId);
          mdl = (if model a = model_sup
                 then setTargetCounts mdl (getCounts d entry_label)
                 else setTargetCounts mdl (getCounts d entry_word))
      in \<lparr>pc = pc_test, wprogress = 0, localTokenCount = 0, wmodel = mdl, ifs = ifs0,
          reports = []\<rparr>)"

text \<open>
  The threads of \<^verbatim>\<open>train\<close> (lines 366 to 373): the counter and the workers \<open>0\<close> to
  \<open>thread - 1\<close>. \<open>train_step\<close> lets the worker \<open>i\<close> make its next step, \<open>train_run\<close> follows
  a schedule, the list of the workers in the order in which they make their steps.
\<close>

record trainer =
  tokenCount :: int
  workers :: "worker list"

definition train_start ::
  "(int \<Rightarrow> rng) \<Rightarrow> (int \<Rightarrow> string stream) \<Rightarrow> int \<Rightarrow> FastText \<Rightarrow> trainer" where
  "train_start seeded open_at fsize ft =
     \<lparr>tokenCount = 0,
      workers = map (\<lambda>i. trainThread_init seeded open_at fsize ft (int i))
                  [0..<nat (thread (ft_args ft))]\<rparr>"

definition train_step :: "FastText \<Rightarrow> nat \<Rightarrow> trainer \<Rightarrow> trainer" where
  "train_step ft i st =
     (if i < length (workers st)
      then (let (tc, w) = trainThread_step ft (int i) (tokenCount st) (workers st ! i)
            in st\<lparr>tokenCount := tc, workers := (workers st)[i := w]\<rparr>)
      else st)"

fun train_run :: "FastText \<Rightarrow> nat list \<Rightarrow> trainer \<Rightarrow> trainer" where
  "train_run ft [] st = st"
| "train_run ft (i # sched) st = train_run ft sched (train_step ft i st)"

subsection \<open>Example objects\<close>

text \<open>A small configuration, vocabulary and model, used to run the functions above.\<close>

definition ex_args :: Args where
  "ex_args = \<lparr>dim = 2, ws = 2, epoch = 1, lr = 1 / 10, thread = 1, wordNgrams = 1, bucket = 0,
     lrUpdateRate = 1, verbose = 0, model = model_sup\<rparr>"

definition ex_getLine :: "string \<Rightarrow> rng \<Rightarrow> (nat \<times> int list \<times> int list) \<times> rng" where
  "ex_getLine s g =
     (if s = ''a x'' then ((2, [0], [2]), g)
      else if s = ''b y'' then ((2, [1], [3]), g)
      else if s = ''a b'' then ((2, [0, 1], []), g)
      else ((0, [], []), g))"

definition ex_dict :: Dictionary where
  "ex_dict = \<lparr>getNgrams_word = (\<lambda>w. if w = ''ab'' then [0, 1] else []),
     getNgrams = (\<lambda>i. [i, i + 10]),
     getLine = ex_getLine,
     addNgrams = (\<lambda>line n. line),
     getLabel = (\<lambda>i. if i = 2 then ''x'' else ''y''),
     getCounts = (\<lambda>t. case t of entry_word \<Rightarrow> [5, 4] | entry_label \<Rightarrow> [3, 1]),
     ntokens = 4\<rparr>"

definition ex_input :: Matrix where
  "ex_input = \<lparr>mat_m = 2, mat_n = 2, mat_data = [1, 2, 3, 4]\<rparr>"

definition ex_output :: Matrix where
  "ex_output = \<lparr>mat_m = 2, mat_n = 2, mat_data = [0, 0, 0, 0]\<rparr>"

definition ex_model :: Model where
  "ex_model = setTargetCounts (Model_new ex_input ex_output ex_args (sconst 0)) [3, 1]"

definition ex_ft :: FastText where
  "ex_ft = \<lparr>ft_args = ex_args, ft_dict = ex_dict, ft_input = ex_input, ft_output = ex_output,
     ft_model = ex_model\<rparr>"

text \<open>A kernel that answers the label of each of the two known words, best first.\<close>

definition ex_predict :: "int list \<Rightarrow> int \<Rightarrow> (real \<times> int) list" where
  "ex_predict line k =
     take (nat k) (if line = [0] then [(- 1 / 10, 2), (- 3, 3)] else [(- 1 / 5, 3), (- 2, 2)])"

text \<open>
  Serializers over a stream of natural numbers. The configuration is written as seven
  numbers (the learning rate, the number of threads and the verbosity are not persisted,
  and are loaded as 1/20, 12 and 2); the vocabulary as its number of tokens and its two
  lists of counts, each after its length; a matrix as its two dimensions and its entries.
  Reading past the end of the stream gives 0.
\<close>

definition ex_field :: "nat list \<Rightarrow> nat \<Rightarrow> nat" where
  "ex_field s i = (if i < length s then s ! i else 0)"

definition ex_save_Args :: "Args \<Rightarrow> nat list" where
  "ex_save_Args a =
     [nat (dim a), nat (ws a), nat (epoch a), nat (wordNgrams a), nat (bucket a),
      nat (lrUpdateRate a),
      (case model a of model_cbow \<Rightarrow> 1 | model_sg \<Rightarrow> 2 | model_sup \<Rightarrow> 3)]"

definition ex_load_Args :: "nat list \<Rightarrow> Args \<times> nat list" where
  "ex_load_Args s =
     (\<lparr>dim = int (ex_field s 0), ws = int (ex_field s 1), epoch = int (ex_field s 2),
       lr = 1 / 20, thread = 12, wordNgrams = int (ex_field s 3), bucket = int (ex_field s 4),
       lrUpdateRate = int (ex_field s 5), verbose = 2,
       model = (if ex_field s 6 = 1 then model_cbow
                else if ex_field s 6 = 2 then model_sg else model_sup)\<rparr>,
      drop 7 s)"

definition ex_save_Dictionary :: "Dictionary \<Rightarrow> nat list" where
  "ex_save_Dictionary d =
     nat (ntokens d) # length (getCounts d entry_word) # map nat (getCounts d entry_word)
       @ length (getCounts d entry_label) # map nat (getCounts d entry_label)"

definition ex_load_Dictionary :: "Args \<Rightarrow> nat list \<Rightarrow> Dictionary \<times> nat list" where
  "ex_load_Dictionary a s =
     (let nw = ex_field s 1;
          wc = map int (take nw (drop 2 s));
          nl = ex_field s (2 + nw);
          lc = map int (take nl (drop (3 + nw) s))
      in (\<lparr>getNgrams_word = (\<lambda>w. if w = ''ab'' then [0, 1] else []),
           getNgrams = (\<lambda>i. [i, i + 10 + bucket a]),
           getLine = ex_getLine,
           addNgrams = (\<lambda>line n. line),
           getLabel = (\<lambda>i. if i = 2 then ''x'' else ''y''),
           getCounts = (\<lambda>t. case t of entry_word \<Rightarrow> wc | entry_label \<Rightarrow> lc),
           ntokens = int (ex_field s 0)\<rparr>,
          drop (3 + nw + nl) s))"

definition ex_save_Matrix :: "Matrix \<Rightarrow> nat list" where
  "ex_save_Matrix A = nat (mat_m A) # nat (mat_n A) # map (\<lambda>x. nat \<lfloor>x\<rfloor>) (mat_data A)"

definition ex_load_Matrix :: "nat list \<Rightarrow> Matrix \<times> nat list" where
  "ex_load_Matrix s =
     (let m = ex_field s 0; n = ex_field s 1
      in (\<lparr>mat_m = int m, mat_n = int n, mat_data = map real (take (m * n) (drop 2 s))\<rparr>,
          drop (2 + m * n) s))"

definition ex_serializers :: "nat serializers" where
  "ex_serializers =
     \<lparr>save_Args = ex_save_Args, load_Args = ex_load_Args,
      save_Dictionary = ex_save_Dictionary, load_Dictionary = ex_load_Dictionary,
      save_Matrix = ex_save_Matrix, load_Matrix = ex_load_Matrix\<rparr>"

text \<open>The configuration that their \<open>load\<close> gives back for \<open>ex_args\<close>, and the object loaded.\<close>

definition ex_args_loaded :: Args where
  "ex_args_loaded = ex_args\<lparr>lr := 1 / 20, thread := 12, verbose := 2\<rparr>"

definition ex_ft_loaded :: FastText where
  "ex_ft_loaded = \<lparr>ft_args = ex_args_loaded, ft_dict = ex_dict, ft_input = ex_input,
     ft_output = ex_output,
     ft_model = setTargetCounts (Model_new ex_input ex_output ex_args_loaded (sconst 0)) [3, 1]\<rparr>"

text \<open>
  A training run with three threads that reports its progress, on an input file of which
  every line read is \<open>a x\<close>, and its state when the threads start.
\<close>

definition ex_ft3 :: FastText where
  "ex_ft3 = ex_ft\<lparr>ft_args := ex_args\<lparr>thread := 3, verbose := 2\<rparr>\<rparr>"

definition ex_start :: trainer where
  "ex_start = train_start (\<lambda>seed. sconst 0) (\<lambda>pos. sconst ''a x'') 12 ex_ft3"

section \<open>Properties\<close>

subsection \<open>Integer division\<close>

lemma cpp_div_nonneg: "0 \<le> a \<Longrightarrow> 0 < b \<Longrightarrow> cpp_div a b = a div b"
  by (simp add: cpp_div_def)

lemma wrap32_id: "- (2 ^ 31) \<le> x \<Longrightarrow> x < 2 ^ 31 \<Longrightarrow> wrap32 x = x"
  by (simp add: wrap32_def)

lemma wrap64_id: "- (2 ^ 63) \<le> x \<Longrightarrow> x < 2 ^ 63 \<Longrightarrow> wrap64 x = x"
  by (simp add: wrap64_def)

lemma wrap32_add: "wrap32 (wrap32 x + y) = wrap32 (x + y)"
proof -
  have "(wrap32 x + y + 2 ^ 31) mod 2 ^ 32 = (x + y + 2 ^ 31) mod (2 ^ 32 :: int)"
    unfolding wrap32_def by (simp add: algebra_simps mod_simps)
  then show ?thesis unfolding wrap32_def [of "wrap32 x + y"] wrap32_def [of "x + y"] by simp
qed

lemma wrap32_range: "- (2 ^ 31) \<le> wrap32 x \<and> wrap32 x < 2 ^ 31"
  by (simp add: wrap32_def)

lemma trainThread_offset_div:
  assumes "0 < T" and "0 \<le> i * fsize" and "i * fsize < 2 ^ 63"
  shows "trainThread_offset i fsize T = i * fsize div T"
proof -
  from assms(2,3) have "wrap64 (i * fsize) = i * fsize" by (simp add: wrap64_id)
  with assms(1,2) show ?thesis by (simp add: trainThread_offset_def cpp_div_nonneg)
qed

lemma int_div_less:
  fixes a s T :: int
  assumes "0 < T" and "a < s * T"
  shows "a div T < s"
proof (rule ccontr)
  assume "\<not> a div T < s"
  then have "s \<le> a div T" by simp
  then have "s * T \<le> (a div T) * T" using assms(1) by (simp add: mult_right_mono)
  moreover have "a div T * T + a mod T = a" by simp
  moreover have "0 \<le> a mod T" using assms(1) by simp
  ultimately show False using assms(2) by linarith
qed

subsection \<open>The accumulation loop of getVector\<close>

lemma getVector_loop_sum:
  assumes "\<forall>i\<in>set ids. 0 \<le> i \<and> i < mat_m A" and "int (length vec) = mat_n A"
  shows "getVector_loop vec A ids =
    Some (map (\<lambda>j. vec ! j + (\<Sum>i\<leftarrow>ids. mat_data A ! (nat (i * mat_n A) + j))) [0..<length vec])"
  using assms
proof (induction ids arbitrary: vec)
  case Nil
  then show ?case by (simp add: map_nth)
next
  case (Cons i ids)
  let ?v = "map (\<lambda>j. vec ! j + mat_data A ! (nat (i * mat_n A) + j)) [0..<length vec]"
  from Cons.prems have step: "Vector_addRow vec A i = Some ?v"
    by (simp add: Vector_addRow_def)
  have len: "int (length ?v) = mat_n A" using Cons.prems by simp
  from Cons.prems have rest: "\<forall>i\<in>set ids. 0 \<le> i \<and> i < mat_m A" by simp
  show ?case
    by (simp add: step Cons.IH [OF rest len] add.assoc)
qed

subsection \<open>The draw of the supervised objective\<close>

lemma label_index_floor:
  assumes "0 < length labels"
  shows "int (label_index labels g) = \<lfloor>frac (shd g) * real (length labels)\<rfloor>"
proof -
  have "0 \<le> frac (shd g) * real (length labels)" by simp
  then have "0 \<le> \<lfloor>frac (shd g) * real (length labels)\<rfloor>" by simp
  then show ?thesis by (simp add: label_index_def uniform_def)
qed

lemma label_index_less:
  assumes "0 < length labels"
  shows "label_index labels g < length labels"
proof -
  from assms have n: "0 < real (length labels)" by simp
  have "frac (shd g) < 1" by (rule frac_lt_1)
  with n have "frac (shd g) * real (length labels) < real (length labels)" by simp
  then have "\<lfloor>frac (shd g) * real (length labels)\<rfloor> < int (length labels)"
    by (simp add: floor_less_iff)
  with label_index_floor [OF assms, of g] show ?thesis by simp
qed

lemma label_index_interval:
  assumes "0 \<le> u" and "u < 1" and "j < length labels"
  shows "label_index labels (u ## g) = j
    \<longleftrightarrow> real j / real (length labels) \<le> u \<and> u < (real j + 1) / real (length labels)"
proof -
  from assms(3) have pos: "0 < length labels" by (cases labels) simp_all
  then have n: "0 < real (length labels)" by simp
  from assms(1,2) have fr: "frac u = u" by (simp add: frac_eq)
  have "label_index labels (u ## g) = j \<longleftrightarrow> int (label_index labels (u ## g)) = int j"
    by simp
  also have "\<dots> \<longleftrightarrow> \<lfloor>u * real (length labels)\<rfloor> = int j"
    by (simp only: label_index_floor [OF pos] stream.sel fr)
  also have "\<dots> \<longleftrightarrow> real j \<le> u * real (length labels) \<and> u * real (length labels) < real j + 1"
    by (simp add: floor_eq_iff)
  also have "\<dots> \<longleftrightarrow> real j / real (length labels) \<le> u \<and> u < (real j + 1) / real (length labels)"
    using n by (simp add: pos_divide_le_eq pos_less_divide_eq)
  finally show ?thesis .
qed

subsection \<open>The window loops in closed form\<close>

lemma radius_bounds:
  assumes "1 \<le> ws (ft_args ft)"
  shows "1 \<le> radius ft mdl w \<and> radius ft mdl w \<le> ws (ft_args ft)"
proof -
  let ?u = "frac (rng mdl !! w)" and ?n = "ws (ft_args ft)"
  from assms have n: "0 < real_of_int ?n" by simp
  have u: "0 \<le> ?u" "?u < 1" by (simp_all add: frac_lt_1)
  from u(1) n have "0 \<le> ?u * real_of_int ?n" by simp
  then have lo: "0 \<le> \<lfloor>?u * real_of_int ?n\<rfloor>" by simp
  from u(2) n have "?u * real_of_int ?n < real_of_int ?n" by simp
  then have hi: "\<lfloor>?u * real_of_int ?n\<rfloor> < ?n" by (simp add: floor_less_iff)
  from lo hi show ?thesis by (simp add: radius_def uniform_def)
qed

lemma fold_bow:
  "fold (\<lambda>c bow. if P c then bow @ f c else bow) cs acc
     = acc @ concat (map (\<lambda>c. if P c then f c else []) cs)"
  by (induction cs arbitrary: acc) simp_all

lemma window_positions:
  "(\<lambda>c. nat (int w + c)) ` {c. - b \<le> c \<and> c \<le> b \<and> in_window line w c}
     = context_positions (length line) w b"
proof (intro equalityI subsetI)
  fix p assume "p \<in> (\<lambda>c. nat (int w + c)) ` {c. - b \<le> c \<and> c \<le> b \<and> in_window line w c}"
  then obtain c where c: "- b \<le> c" "c \<le> b" "in_window line w c" and p: "p = nat (int w + c)"
    by auto
  from c(3) have "c \<noteq> 0" "0 \<le> int w + c" "int w + c < int (length line)"
    by (simp_all add: in_window_def)
  with c(1,2) p show "p \<in> context_positions (length line) w b"
    by (auto simp: context_positions_def)
next
  fix p assume "p \<in> context_positions (length line) w b"
  then have p: "p < length line" "p \<noteq> w" "\<bar>int p - int w\<bar> \<le> b"
    by (simp_all add: context_positions_def)
  let ?c = "int p - int w"
  from p have "- b \<le> ?c \<and> ?c \<le> b \<and> in_window line w ?c"
    by (auto simp: in_window_def)
  moreover have "p = nat (int w + ?c)" by simp
  ultimately show "p \<in> (\<lambda>c. nat (int w + c)) ` {c. - b \<le> c \<and> c \<le> b \<and> in_window line w c}"
    by blast
qed

lemma cbow_bow_set:
  "set (cbow_bow d line w b)
     = (\<Union>p\<in>context_positions (length line) w b. set (getNgrams d (line ! p)))"
proof -
  have "set (cbow_bow d line w b)
      = (\<Union>c\<in>{c. - b \<le> c \<and> c \<le> b \<and> in_window line w c}.
            set (getNgrams d (line ! nat (int w + c))))"
    by (auto simp: cbow_bow_def fold_bow split: if_splits)
  also have "\<dots> = (\<Union>p\<in>(\<lambda>c. nat (int w + c)) ` {c. - b \<le> c \<and> c \<le> b \<and> in_window line w c}.
            set (getNgrams d (line ! p)))"
    by simp
  finally show ?thesis by (simp only: window_positions)
qed


lemma cbow_fold:
  "fold (cbow_step ft rate line) [0..<n] mdl
     = mdl\<lparr>rng := sdrop n (rng mdl),
           updates := updates mdl @
             map (\<lambda>w. (cbow_bow (ft_dict ft) line w (radius ft mdl w), line ! w, rate)) [0..<n]\<rparr>"
  by (induction n) (simp_all add: cbow_step_def uniform_def radius_def Model_update_def)

lemma skipgram_window_fold:
  "fold (\<lambda>c m. if in_window line w c
                  then Model_update m ngrams (line ! nat (int w + c)) rate else m) cs mdl
     = mdl\<lparr>updates := updates mdl @
          map (\<lambda>c. (ngrams, line ! nat (int w + c), rate)) (filter (in_window line w) cs)\<rparr>"
  by (induction cs arbitrary: mdl) (simp_all add: Model_update_def)

lemma skipgram_fold:
  "fold (skipgram_step ft rate line) [0..<n] mdl
     = mdl\<lparr>rng := sdrop n (rng mdl),
           updates := updates mdl @
             concat (map (\<lambda>w. skipgram_pairs ft rate line w (radius ft mdl w)) [0..<n])\<rparr>"
  by (induction n)
    (simp_all add: skipgram_step_def skipgram_window_def skipgram_window_fold uniform_def
      radius_def skipgram_pairs_def)

lemma new_updates_append: "updates mdl' = updates mdl @ us \<Longrightarrow> new_updates mdl mdl' = us"
  by (simp add: new_updates_def)

lemma cbow_new_updates:
  "new_updates mdl (cbow ft mdl rate line)
     = map (\<lambda>w. (cbow_bow (ft_dict ft) line w (radius ft mdl w), line ! w, rate)) [0..<length line]"
  by (rule new_updates_append) (simp add: cbow_def cbow_fold)

lemma skipgram_new_updates:
  "new_updates mdl (skipgram ft mdl rate line)
     = concat (map (\<lambda>w. skipgram_pairs ft rate line w (radius ft mdl w)) [0..<length line])"
  by (rule new_updates_append) (simp add: skipgram_def skipgram_fold)




subsection \<open>The objectives on the example\<close>

lemmas ex_defs = ex_ft_def ex_args_def ex_dict_def ex_model_def Model_new_def setTargetCounts_def

lemma upto_m1_1: "[- 1..1] = [- 1, 0, 1::int]"
  by (simp add: upto.simps)

lemma ex_radius: "radius ex_ft ex_model w = 1"
  by (simp add: radius_def uniform_def ex_defs)

lemma ex_cbow:
  "new_updates ex_model (cbow ex_ft ex_model (1 / 2) [0, 1, 2])
     = [([1, 11], 0, 1 / 2), ([0, 10, 2, 12], 1, 1 / 2), ([1, 11], 2, 1 / 2)]"
  by (simp add: cbow_new_updates ex_radius cbow_bow_def upto_m1_1 in_window_def upt_rec)
    (simp add: ex_defs)


subsection \<open>The evaluation loop in closed form\<close>

lemma count_hits_filter:
  "count_hits preds labels p = p + real (length (filter (\<lambda>it. snd it \<in> set labels) preds))"
  unfolding count_hits_def by (induction preds arbitrary: p) simp_all

lemma wrap32_wrap32: "wrap32 (wrap32 x) = wrap32 x"
  using wrap32_add [of x 0] by simp

lemma test_loop_counts:
  assumes "wrap32 ne = ne" and "wrap32 nl = nl"
  shows "fst (test_loop P ft k inp (p, ne, nl) g) =
     (p + real (\<Sum>ex\<leftarrow>counted (read_examples ft inp g). true_positives P k ex),
      wrap32 (ne + int (length (counted (read_examples ft inp g)))),
      wrap32 (nl + (\<Sum>ex\<leftarrow>counted (read_examples ft inp g). int (length (snd ex)))))"
  using assms
proof (induction inp arbitrary: p ne nl g)
  case Nil
  then show ?case by (simp add: counted_def)
next
  case (Cons l rest)
  obtain n line0 labels g' where gl: "getLine (ft_dict ft) l g = ((n, line0, labels), g')"
    by (metis prod_cases3 surj_pair)
  let ?line = "addNgrams (ft_dict ft) line0 (wordNgrams (ft_args ft))"
  show ?case
  proof (cases "labels \<noteq> [] \<and> ?line \<noteq> []")
    case True
    have "fst (test_loop P ft k rest
            (count_hits (P ?line k) labels p, wrap32 (ne + 1), wrap32 (nl + int (length labels))) g')
        = (count_hits (P ?line k) labels p
             + real (\<Sum>ex\<leftarrow>counted (read_examples ft rest g'). true_positives P k ex),
           wrap32 (wrap32 (ne + 1) + int (length (counted (read_examples ft rest g')))),
           wrap32 (wrap32 (nl + int (length labels))
             + (\<Sum>ex\<leftarrow>counted (read_examples ft rest g'). int (length (snd ex)))))"
      by (rule Cons.IH) (simp_all add: wrap32_wrap32)
    with True show ?thesis
      by (simp add: gl counted_def true_positives_def count_hits_filter wrap32_add
          algebra_simps)
  next
    case False
    with Cons.IH [OF Cons.prems, of p g'] show ?thesis
      by (auto simp: gl counted_def)
  qed
qed

lemma test_eq:
  "test P ft inp k =
     (let exs = counted (read_examples ft inp (rng (ft_model ft)));
          tp = real (\<Sum>ex\<leftarrow>exs. true_positives P k ex);
          n = wrap32 (int (length exs))
      in test_report k (fdiv tp (wrap32 (k * n)))
           (fdiv tp (wrap32 (\<Sum>ex\<leftarrow>exs. int (length (snd ex))))) n)"
proof -
  obtain r g' where r: "test_loop P ft k inp (0, 0, 0) (rng (ft_model ft)) = (r, g')"
    by (cases "test_loop P ft k inp (0, 0, 0) (rng (ft_model ft))")
  have z: "wrap32 0 = 0" by (simp add: wrap32_def)
  from test_loop_counts [OF z z, of P ft k inp 0 "rng (ft_model ft)"] r
  have "r = (real (\<Sum>ex\<leftarrow>counted (read_examples ft inp (rng (ft_model ft))). true_positives P k ex),
      wrap32 (int (length (counted (read_examples ft inp (rng (ft_model ft)))))),
      wrap32 (\<Sum>ex\<leftarrow>counted (read_examples ft inp (rng (ft_model ft))). int (length (snd ex))))"
    by simp
  with r show ?thesis
    by (simp add: test_def test_report_def Let_def)
qed

lemma sum_lengths_nonneg: "0 \<le> (\<Sum>ex\<leftarrow>exs. int (length (snd ex)))"
  by (induction exs) simp_all

lemma test_in_range:
  assumes "int (length (counted (read_examples ft inp (rng (ft_model ft))))) < 2 ^ 31"
    and "(\<Sum>ex\<leftarrow>counted (read_examples ft inp (rng (ft_model ft))). int (length (snd ex))) < 2 ^ 31"
    and "- (2 ^ 31) \<le> k * int (length (counted (read_examples ft inp (rng (ft_model ft)))))"
    and "k * int (length (counted (read_examples ft inp (rng (ft_model ft))))) < 2 ^ 31"
  shows "test P ft inp k =
     (let exs = counted (read_examples ft inp (rng (ft_model ft)));
          tp = real (\<Sum>ex\<leftarrow>exs. true_positives P k ex)
      in test_report k (fdiv tp (k * int (length exs)))
           (fdiv tp (\<Sum>ex\<leftarrow>exs. int (length (snd ex)))) (int (length exs)))"
proof -
  let ?exs = "counted (read_examples ft inp (rng (ft_model ft)))"
  from assms(1) have n: "wrap32 (int (length ?exs)) = int (length ?exs)"
    by (simp add: wrap32_id)
  from assms(2) sum_lengths_nonneg [of ?exs]
  have l: "wrap32 (\<Sum>ex\<leftarrow>?exs. int (length (snd ex))) = (\<Sum>ex\<leftarrow>?exs. int (length (snd ex)))"
    by (simp add: wrap32_id)
  from assms(3,4) have kn: "wrap32 (k * int (length ?exs)) = k * int (length ?exs)"
    by (rule wrap32_id)
  show ?thesis
    unfolding test_eq Let_def n l kn by (rule refl)
qed

lemma all_correct_sums:
  assumes "\<forall>ex\<in>set exs. \<exists>l s. snd ex = [l] \<and> P (fst ex) 1 = [(s, l)]"
  shows "(\<Sum>ex\<leftarrow>exs. true_positives P 1 ex) = length exs
    \<and> (\<Sum>ex\<leftarrow>exs. int (length (snd ex))) = int (length exs)"
  using assms
proof (induction exs)
  case Nil
  then show ?case by simp
next
  case (Cons ex exs)
  from Cons.prems obtain l s where "snd ex = [l]" "P (fst ex) 1 = [(s, l)]" by auto
  then have "true_positives P 1 ex = 1" "length (snd ex) = 1"
    by (simp_all add: true_positives_def)
  moreover from Cons have "(\<Sum>ex\<leftarrow>exs. true_positives P 1 ex) = length exs
    \<and> (\<Sum>ex\<leftarrow>exs. int (length (snd ex))) = int (length exs)" by simp
  ultimately show ?case by simp
qed

lemma ex_read:
  "read_examples ex_ft [''a x'', ''b y'', ''a b'', ''''] g = [([0], [2]), ([1], [3]), ([0, 1], []), ([], [])]"
  by (simp add: ex_ft_def ex_dict_def ex_args_def ex_getLine_def)

lemma ex_read_none:
  "read_examples ex_ft [''a b'', ''''] g = [([0, 1], []), ([], [])]"
  by (simp add: ex_ft_def ex_dict_def ex_args_def ex_getLine_def)

lemma ex_counted:
  "counted (read_examples ex_ft [''a x'', ''b y'', ''a b'', ''''] g) = [([0], [2]), ([1], [3])]"
  unfolding ex_read by (simp add: counted_def)

lemma ex_counted_none: "counted (read_examples ex_ft [''a b'', ''''] g) = []"
  unfolding ex_read_none by (simp add: counted_def)

subsection \<open>Loading what was saved\<close>

lemma loadModel_stream_saved:
  assumes "parts_round_trip c ft"
  shows "loadModel_stream c seeded
           (save_Args c (ft_args ft) @ save_Dictionary c (ft_dict ft)
              @ save_Matrix c (ft_input ft) @ save_Matrix c (ft_output ft) @ rest)
         = (\<lparr>ft_args = fst (load_Args c (save_Args c (ft_args ft) @ save_Dictionary c (ft_dict ft)
                 @ save_Matrix c (ft_input ft) @ save_Matrix c (ft_output ft) @ rest)),
              ft_dict = ft_dict ft, ft_input = ft_input ft, ft_output = ft_output ft,
              ft_model = setTargetCounts
                (Model_new (ft_input ft) (ft_output ft)
                   (fst (load_Args c (save_Args c (ft_args ft) @ save_Dictionary c (ft_dict ft)
                      @ save_Matrix c (ft_input ft) @ save_Matrix c (ft_output ft) @ rest)))
                   (seeded 0))
                (getCounts (ft_dict ft)
                   (if model (ft_args ft) = model_sup then entry_label else entry_word))\<rparr>,
            rest)"
proof -
  from assms have a: "\<And>r. snd (load_Args c (save_Args c (ft_args ft) @ r)) = r"
    and ma: "\<And>r. model (fst (load_Args c (save_Args c (ft_args ft) @ r))) = model (ft_args ft)"
    and d: "\<And>r r'. load_Dictionary c (fst (load_Args c (save_Args c (ft_args ft) @ r)))
                (save_Dictionary c (ft_dict ft) @ r') = (ft_dict ft, r')"
    and m: "\<And>r. load_Matrix c (save_Matrix c (ft_input ft) @ r) = (ft_input ft, r)"
      "\<And>r. load_Matrix c (save_Matrix c (ft_output ft) @ r) = (ft_output ft, r)"
    by (simp_all add: parts_round_trip_def)
  show ?thesis
    by (simp add: loadModel_stream_def Let_def split_beta a ma d m)
qed

lemma ex_saved_args: "ex_save_Args ex_args = [2, 2, 1, 1, 0, 1, 3]"
  by (simp add: ex_save_Args_def ex_args_def)

lemma ex_saved_dict: "ex_save_Dictionary ex_dict = [4, 2, 5, 4, 2, 3, 1]"
  by (simp add: ex_save_Dictionary_def ex_dict_def)

lemma ex_saved_input: "ex_save_Matrix ex_input = [2, 2, 1, 2, 3, 4]"
  by (simp add: ex_save_Matrix_def ex_input_def)

lemma ex_saved_output: "ex_save_Matrix ex_output = [2, 2, 0, 0, 0, 0]"
  by (simp add: ex_save_Matrix_def ex_output_def)

lemma ex_loaded_args: "ex_load_Args ([2, 2, 1, 1, 0, 1, 3] @ rest) = (ex_args_loaded, rest)"
  by (simp add: ex_load_Args_def ex_field_def ex_args_loaded_def ex_args_def)

lemma ex_loaded_dict:
  "ex_load_Dictionary ex_args_loaded ([4, 2, 5, 4, 2, 3, 1] @ rest) = (ex_dict, rest)"
  by (simp add: ex_load_Dictionary_def ex_field_def ex_args_loaded_def ex_args_def ex_dict_def
      Let_def)

lemma ex_loaded_input: "ex_load_Matrix ([2, 2, 1, 2, 3, 4] @ rest) = (ex_input, rest)"
  by (simp add: ex_load_Matrix_def ex_field_def ex_input_def Let_def)

lemma ex_loaded_output: "ex_load_Matrix ([2, 2, 0, 0, 0, 0] @ rest) = (ex_output, rest)"
  by (simp add: ex_load_Matrix_def ex_field_def ex_output_def Let_def)

lemma ex_parts_round_trip: "parts_round_trip ex_serializers ex_ft"
  unfolding parts_round_trip_def ex_serializers_def serializers.simps ex_ft_def FastText.simps
    ex_saved_args ex_saved_dict ex_saved_input ex_saved_output ex_loaded_args ex_loaded_dict
    ex_loaded_input ex_loaded_output fst_conv snd_conv
  by (simp add: ex_args_loaded_def ex_args_def)

lemma ex_saveModel:
  "saveModel ex_serializers ex_ft True
     = Inr [2, 2, 1, 1, 0, 1, 3, 4, 2, 5, 4, 2, 3, 1, 2, 2, 1, 2, 3, 4, 2, 2, 0, 0, 0, 0]"
  by (simp add: saveModel_def ex_serializers_def ex_ft_def ex_saved_args ex_saved_dict
      ex_saved_input ex_saved_output)

lemma ex_loadModel:
  "loadModel ex_serializers (\<lambda>seed. sconst 0)
       (Some [2, 2, 1, 1, 0, 1, 3, 4, 2, 5, 4, 2, 3, 1, 2, 2, 1, 2, 3, 4, 2, 2, 0, 0, 0, 0])
     = Inr (ex_ft_loaded, [])"
proof -
  have "loadModel_stream ex_serializers (\<lambda>seed. sconst 0)
      ([2, 2, 1, 1, 0, 1, 3] @ [4, 2, 5, 4, 2, 3, 1] @ [2, 2, 1, 2, 3, 4] @ [2, 2, 0, 0, 0, 0] @ [])
    = (ex_ft_loaded, [])"
    unfolding loadModel_stream_def ex_serializers_def
    by (simp only: serializers.simps ex_loaded_args ex_loaded_dict ex_loaded_input
        ex_loaded_output Let_def split_conv)
      (simp add: ex_ft_loaded_def ex_args_loaded_def ex_args_def ex_dict_def)
  then show ?thesis by (simp add: loadModel_def)
qed

subsection \<open>One iteration of the training loop\<close>

lemma new_updates_rng: "new_updates (mdl\<lparr>rng := g\<rparr>) mdl' = new_updates mdl mdl'"
  by (simp add: new_updates_def)

lemma supervised_rate:
  "\<forall>u\<in>set (new_updates mdl (supervised mdl rate line labels)). snd (snd u) = rate"
  by (simp add: new_updates_def supervised_def uniform_def Model_update_def)

lemma cbow_rate:
  "\<forall>u\<in>set (new_updates mdl (cbow ft mdl rate line)). snd (snd u) = rate"
  by (simp add: cbow_new_updates)

lemma skipgram_rate:
  "\<forall>u\<in>set (new_updates mdl (skipgram ft mdl rate line)). snd (snd u) = rate"
  by (auto simp: skipgram_new_updates skipgram_pairs_def)

lemma trainThread_step_test:
  assumes "pc s = pc_test"
  shows "fst (trainThread_step ft threadId tc s) = tc
    \<and> pc (snd (trainThread_step ft threadId tc s))
        = (if tc < trainThread_budget ft then pc_read else pc_done)"
  using assms by (simp add: trainThread_step_def)

lemma trainThread_step_read:
  assumes "pc s = pc_read"
  shows "fst (trainThread_step ft threadId tc s) = tc
    \<and> pc (snd (trainThread_step ft threadId tc s)) = pc_flush
    \<and> wprogress (snd (trainThread_step ft threadId tc s))
        = real_of_int tc / real_of_int (trainThread_budget ft)
    \<and> (\<forall>u\<in>set (new_updates (wmodel s) (wmodel (snd (trainThread_step ft threadId tc s)))).
          snd (snd u)
            = lr (ft_args ft) * (1 - real_of_int tc / real_of_int (trainThread_budget ft)))"
proof -
  obtain n line labels g where gl:
    "getLine (ft_dict ft) (shd (ifs s)) (rng (wmodel s)) = ((n, line, labels), g)"
    by (metis prod_cases3 surj_pair)
  let ?rate = "lr (ft_args ft) * (1 - real_of_int tc / real_of_int (trainThread_budget ft))"
  let ?mdl = "(wmodel s)\<lparr>rng := g\<rparr>"
  let ?s' = "snd (trainThread_step ft threadId tc s)"
  have w: "wmodel ?s' =
       (if model (ft_args ft) = model_sup
        then supervised ?mdl ?rate (addNgrams (ft_dict ft) line (wordNgrams (ft_args ft))) labels
        else if model (ft_args ft) = model_cbow then cbow ft ?mdl ?rate line
        else if model (ft_args ft) = model_sg then skipgram ft ?mdl ?rate line
        else ?mdl)"
    using assms by (simp add: trainThread_step_def gl Let_def)
  have "\<forall>u\<in>set (new_updates ?mdl (wmodel ?s')). snd (snd u) = ?rate"
    unfolding w
    using supervised_rate [of ?mdl ?rate
        "addNgrams (ft_dict ft) line (wordNgrams (ft_args ft))" labels]
      cbow_rate [of ?mdl ft ?rate line] skipgram_rate [of ?mdl ft ?rate line]
    by (simp add: new_updates_def)
  then have "\<forall>u\<in>set (new_updates (wmodel s) (wmodel ?s')). snd (snd u) = ?rate"
    by (simp only: new_updates_rng)
  moreover from assms have "fst (trainThread_step ft threadId tc s) = tc"
    "pc ?s' = pc_flush"
    "wprogress ?s' = real_of_int tc / real_of_int (trainThread_budget ft)"
    by (simp_all add: trainThread_step_def gl Let_def)
  ultimately show ?thesis by blast
qed

lemma trainThread_step_flush:
  assumes "pc s = pc_flush"
  shows "pc (snd (trainThread_step ft threadId tc s)) = pc_test
    \<and> fst (trainThread_step ft threadId tc s)
        = (if lrUpdateRate (ft_args ft) < localTokenCount s
           then wrap64 (tc + localTokenCount s) else tc)
    \<and> wmodel (snd (trainThread_step ft threadId tc s)) = wmodel s"
  using assms by (simp add: trainThread_step_def)

subsection \<open>Partition offsets\<close>

text \<open>
  Claim C6, within the range of the 64-bit product. For every worker count \<open>T > 0\<close> and
  file size \<open>total_size > 0\<close> such that the largest product \<open>(T - 1) * total_size\<close> fits a
  64-bit signed integer, the offsets
  \<open>offset i = i * total_size / T\<close> of the workers \<open>0 \<le> i < T\<close> are the integer quotients;
  \<open>offset 0 = 0\<close>; they are non-decreasing in the worker index; and the last worker's
  offset \<open>offset (T - 1)\<close> is below \<open>total_size\<close>.
\<close>

theorem trainThread_offset_partition:
  assumes "0 < T" and "0 < total_size" and "(T - 1) * total_size < 2 ^ 63"
  shows "trainThread_offset 0 total_size T = 0
    \<and> (\<forall>i. 0 \<le> i \<and> i < T \<longrightarrow> trainThread_offset i total_size T = i * total_size div T)
    \<and> (\<forall>i j. 0 \<le> i \<and> i \<le> j \<and> j < T \<longrightarrow>
          trainThread_offset i total_size T \<le> trainThread_offset j total_size T)
    \<and> trainThread_offset (T - 1) total_size T < total_size"
proof -
  have q: "trainThread_offset i total_size T = i * total_size div T"
    if "0 \<le> i" and "i < T" for i
  proof -
    from that assms(2) have nn: "0 \<le> i * total_size" by simp
    from that(2) have "i \<le> T - 1" by simp
    with assms(2) have "i * total_size \<le> (T - 1) * total_size"
      by (simp add: mult_right_mono)
    with assms(3) have "i * total_size < 2 ^ 63" by simp
    with assms(1) nn show ?thesis by (rule trainThread_offset_div)
  qed
  show ?thesis
  proof (intro conjI allI impI)
    show "trainThread_offset 0 total_size T = 0"
      using q [of 0] assms(1) by simp
  next
    fix i assume "0 \<le> i \<and> i < T"
    then show "trainThread_offset i total_size T = i * total_size div T"
      by (simp add: q)
  next
    fix i j :: int
    assume ij: "0 \<le> i \<and> i \<le> j \<and> j < T"
    with assms(2) have le: "i * total_size \<le> j * total_size"
      by (simp add: mult_right_mono)
    from ij have "trainThread_offset i total_size T = i * total_size div T"
      and "trainThread_offset j total_size T = j * total_size div T"
      by (simp_all add: q)
    moreover have "i * total_size div T \<le> j * total_size div T"
      using le assms(1) by (rule zdiv_mono1)
    ultimately show "trainThread_offset i total_size T \<le> trainThread_offset j total_size T"
      by simp
  next
    have "(T - 1) * total_size < total_size * T"
      using assms by (simp add: algebra_simps)
    with assms(1) have lt: "(T - 1) * total_size div T < total_size"
      by (rule int_div_less)
    from assms(1) have "trainThread_offset (T - 1) total_size T = (T - 1) * total_size div T"
      by (simp add: q)
    with lt show "trainThread_offset (T - 1) total_size T < total_size"
      by simp
  qed
qed

theorem trainThread_offset_partition_witness:
  "trainThread_offset 0 10 3 = 0 \<and> trainThread_offset 1 10 3 = 3
    \<and> trainThread_offset 2 10 3 = 6
    \<and> trainThread_offset 1 10 3 \<le> trainThread_offset 2 10 3
    \<and> trainThread_offset (3 - 1) 10 3 < 10"
proof -
  have T: "(0::int) < 3" and S: "(0::int) < 10" and B: "(3 - 1) * (10::int) < 2 ^ 63"
    by simp_all
  note inst = trainThread_offset_partition [OF T S B]
  from inst have "trainThread_offset 0 10 3 = 0" by blast
  moreover from inst have "trainThread_offset 1 10 3 = 1 * 10 div 3"
    and "trainThread_offset 2 10 3 = 2 * 10 div 3"
    by simp_all
  moreover from inst have "trainThread_offset 1 10 3 \<le> trainThread_offset 2 10 3"
    and "trainThread_offset (3 - 1) 10 3 < 10"
    by simp_all
  ultimately show ?thesis by simp
qed

text \<open>
  The claim as it was stated, for every \<open>T > 0\<close> and \<open>total_size > 0\<close>, fails where the
  product leaves the 64-bit range: with 2097153 workers on a file of \<open>2 ^ 43\<close> bytes, the
  offset of worker 1048575 is positive, that of worker 1048576 is negative, and worker
  2097152 seeks to 0.
\<close>

theorem trainThread_offset_overflow:
  "(0::int) < 2097153 \<and> (0::int) < 2 ^ 43
   \<and> trainThread_offset 1048575 (2 ^ 43) 2097153 = 4398040219650
   \<and> trainThread_offset 1048576 (2 ^ 43) 2097153 = - 4398044413952
   \<and> \<not> trainThread_offset 1048575 (2 ^ 43) 2097153 \<le> trainThread_offset 1048576 (2 ^ 43) 2097153
   \<and> trainThread_offset 2097152 (2 ^ 43) 2097153 = 0"
  by (simp add: trainThread_offset_def wrap64_def cpp_div_def)

subsection \<open>Word vectors\<close>

text \<open>
  Claim C1. For every word, \<^verbatim>\<open>getVector\<close> returns the elementwise mean of the rows of the
  input matrix at the word's own subword n-gram ids, and the vector that is exactly zero
  when the word has no n-gram. (The ids are rows of the matrix and the vector has as many
  components as the matrix has columns.)
\<close>

theorem getVector_mean:
  assumes "\<forall>i\<in>set (getNgrams_word (ft_dict ft) w). 0 \<le> i \<and> i < mat_m (ft_input ft)"
    and "int (length vec) = mat_n (ft_input ft)"
  shows "getVector ft vec w =
    Some (if getNgrams_word (ft_dict ft) w = [] then replicate (length vec) 0
          else mean_of_rows (ft_input ft) (getNgrams_word (ft_dict ft) w) (length vec))"
proof -
  let ?ids = "getNgrams_word (ft_dict ft) w"
  have z: "int (length (Vector_zero vec)) = mat_n (ft_input ft)"
    using assms(2) by (simp add: Vector_zero_def)
  note loop = getVector_loop_sum [OF assms(1) z]
  show ?thesis
  proof (cases "?ids = []")
    case True
    then show ?thesis
      by (simp add: getVector_def Vector_zero_def map_replicate_const)
  next
    case False
    then show ?thesis
      unfolding getVector_def Let_def loop
      by (simp add: Vector_zero_def Vector_mul_def mean_of_rows_def)
  qed
qed

theorem getVector_mean_witness:
  "getVector ex_ft [7, 7] ''ab'' = Some [2, 3] \<and> getVector ex_ft [7, 7] ''zz'' = Some [0, 0]"
proof -
  have "getVector ex_ft [7, 7] ''ab'' = Some [2, 3]"
    using getVector_mean [of ex_ft "''ab''" "[7, 7]"]
    by (simp add: ex_ft_def ex_dict_def ex_input_def mean_of_rows_def upt_rec)
  moreover have "getVector ex_ft [7, 7] ''zz'' = Some [0, 0]"
    using getVector_mean [of ex_ft "''zz''" "[7, 7]"]
    by (simp add: ex_ft_def ex_dict_def ex_input_def)
  ultimately show ?thesis by simp
qed

subsection \<open>Supervised objective\<close>

text \<open>
  Claim C3. The supervised objective makes no optimizer update when the line or the label
  set is empty (the optimizer is left as it was). Otherwise it makes exactly one update,
  whose input is the whole line and whose target is the label at the index drawn, and it
  advances the generator by that one draw. The index is drawn uniformly at random from
  the positions of the label set: position \<open>j\<close> of \<open>n\<close> is drawn exactly when the variate,
  uniform on \<open>[0, 1)\<close>, falls in \<open>[j / n, (j + 1) / n)\<close>, an interval of length \<open>1 / n\<close>.
\<close>

theorem supervised_updates:
  "(labels = [] \<or> line = [] \<longrightarrow> supervised mdl rate line labels = mdl)
   \<and> (labels \<noteq> [] \<and> line \<noteq> [] \<longrightarrow>
        updates (supervised mdl rate line labels)
          = updates mdl @ [(line, labels ! label_index labels (rng mdl), rate)]
        \<and> label_index labels (rng mdl) < length labels
        \<and> rng (supervised mdl rate line labels) = stl (rng mdl)
        \<and> (\<forall>j<length labels. \<forall>u g. 0 \<le> u \<and> u < 1 \<longrightarrow>
              (label_index labels (u ## g) = j
               \<longleftrightarrow> real j / real (length labels) \<le> u
                   \<and> u < (real j + 1) / real (length labels))))"
proof (intro conjI impI allI)
  assume "labels = [] \<or> line = []"
  then show "supervised mdl rate line labels = mdl"
    by (auto simp: supervised_def)
next
  assume a: "labels \<noteq> [] \<and> line \<noteq> []"
  then show "updates (supervised mdl rate line labels)
          = updates mdl @ [(line, labels ! label_index labels (rng mdl), rate)]"
    by (simp add: supervised_def label_index_def uniform_def Model_update_def)
  from a show "rng (supervised mdl rate line labels) = stl (rng mdl)"
    by (simp add: supervised_def uniform_def Model_update_def)
  from a have "0 < length labels" by simp
  then show "label_index labels (rng mdl) < length labels"
    by (rule label_index_less)
next
  fix j and u :: real and g :: rng
  assume a: "labels \<noteq> [] \<and> line \<noteq> []" and j: "j < length labels"
    and u: "0 \<le> u \<and> u < 1"
  from u have "0 \<le> u" "u < 1" by simp_all
  then show "label_index labels (u ## g) = j
      \<longleftrightarrow> real j / real (length labels) \<le> u \<and> u < (real j + 1) / real (length labels)"
    using j by (rule label_index_interval)
qed

theorem supervised_updates_witness:
  "supervised ex_model (1 / 2) [] [2] = ex_model
   \<and> updates (supervised (ex_model\<lparr>rng := sconst (1 / 2)\<rparr>) (1 / 2) [0, 1] [2, 3])
       = [([0, 1], 3, 1 / 2)]
   \<and> label_index [2, 3] (1 / 2 ## sconst 0) = 1"
proof -
  note empty = supervised_updates [of "[2]" "[]" ex_model "1 / 2"]
  note inst = supervised_updates [of "[2, 3]" "[0, 1]" "ex_model\<lparr>rng := sconst (1 / 2)\<rparr>" "1 / 2"]
  have li: "label_index [2, 3] (sconst (1 / 2)) = 1"
    by (simp add: label_index_def uniform_def frac_def)
  from empty have e: "supervised ex_model (1 / 2) [] [2] = ex_model" by simp
  from inst have "updates (supervised (ex_model\<lparr>rng := sconst (1 / 2)\<rparr>) (1 / 2) [0, 1] [2, 3])
       = updates (ex_model\<lparr>rng := sconst (1 / 2)\<rparr>)
           @ [([0, 1], [2, 3] ! label_index [2, 3] (rng (ex_model\<lparr>rng := sconst (1 / 2)\<rparr>)), 1 / 2)]"
    by simp
  then have u: "updates (supervised (ex_model\<lparr>rng := sconst (1 / 2)\<rparr>) (1 / 2) [0, 1] [2, 3])
       = [([0, 1], 3, 1 / 2)]"
    by (simp add: li ex_model_def Model_new_def setTargetCounts_def)
  have j: "(1::nat) < length [2, 3::int]" and v: "(0::real) \<le> 1 / 2 \<and> (1::real) / 2 < 1"
    by simp_all
  from inst j v have "label_index [2, 3] (1 / 2 ## sconst 0) = 1
      \<longleftrightarrow> real 1 / real (length [2, 3::int]) \<le> 1 / 2
          \<and> (1::real) / 2 < (real 1 + 1) / real (length [2, 3::int])"
    by blast
  then have d: "label_index [2, 3] (1 / 2 ## sconst 0) = 1" by simp
  from e u d show ?thesis by blast
qed

subsection \<open>CBOW objective\<close>

text \<open>
  Claim C4. For every line, CBOW makes exactly one optimizer update for each position \<open>w\<close>
  of the line, in order; its target is the token at \<open>w\<close>, and its input holds exactly the
  subword n-gram ids of the other positions within the radius drawn at \<open>w\<close> (\<open>w\<close> itself
  excluded, positions outside the line dropped). The radius lies in \<open>1 .. ws\<close>.
\<close>

theorem cbow_one_update_per_position:
  "updates (cbow ft mdl rate line) = updates mdl @ new_updates mdl (cbow ft mdl rate line)
   \<and> length (new_updates mdl (cbow ft mdl rate line)) = length line
   \<and> (\<forall>w<length line.
        snd (new_updates mdl (cbow ft mdl rate line) ! w) = (line ! w, rate)
        \<and> set (fst (new_updates mdl (cbow ft mdl rate line) ! w))
            = (\<Union>p\<in>context_positions (length line) w (radius ft mdl w).
                 set (getNgrams (ft_dict ft) (line ! p))))
   \<and> (1 \<le> ws (ft_args ft) \<longrightarrow>
        (\<forall>w. 1 \<le> radius ft mdl w \<and> radius ft mdl w \<le> ws (ft_args ft)))"
proof (intro conjI allI impI)
  show "updates (cbow ft mdl rate line) = updates mdl @ new_updates mdl (cbow ft mdl rate line)"
    unfolding cbow_new_updates by (simp add: cbow_def cbow_fold)
next
  show "length (new_updates mdl (cbow ft mdl rate line)) = length line"
    by (simp add: cbow_new_updates)
next
  fix w assume "w < length line"
  then show "snd (new_updates mdl (cbow ft mdl rate line) ! w) = (line ! w, rate)"
    by (simp add: cbow_new_updates)
next
  fix w assume "w < length line"
  then show "set (fst (new_updates mdl (cbow ft mdl rate line) ! w))
      = (\<Union>p\<in>context_positions (length line) w (radius ft mdl w).
            set (getNgrams (ft_dict ft) (line ! p)))"
    by (simp add: cbow_new_updates cbow_bow_set)
next
  fix w assume "1 \<le> ws (ft_args ft)"
  then show "1 \<le> radius ft mdl w" by (simp add: radius_bounds)
next
  fix w assume "1 \<le> ws (ft_args ft)"
  then show "radius ft mdl w \<le> ws (ft_args ft)" by (simp add: radius_bounds)
qed

theorem cbow_one_update_per_position_witness:
  "length (new_updates ex_model (cbow ex_ft ex_model (1 / 2) [0, 1, 2])) = 3
   \<and> snd (new_updates ex_model (cbow ex_ft ex_model (1 / 2) [0, 1, 2]) ! 1) = (1, 1 / 2)
   \<and> (\<Union>p\<in>context_positions (length [0, 1, 2::int]) 1 (radius ex_ft ex_model 1).
         set (getNgrams (ft_dict ex_ft) ([0, 1, 2] ! p))) = {0, 10, 2, 12}
   \<and> 1 \<le> radius ex_ft ex_model 1 \<and> radius ex_ft ex_model 1 \<le> 2"
proof -
  note inst = cbow_one_update_per_position [of ex_ft ex_model "1 / 2" "[0, 1, 2]"]
  have w: "(1::nat) < length [0, 1, 2::int]" by simp
  have ws: "1 \<le> ws (ft_args ex_ft)" by (simp add: ex_defs)
  from inst have len: "length (new_updates ex_model (cbow ex_ft ex_model (1 / 2) [0, 1, 2])) = 3"
    by simp
  from inst w have tgt: "snd (new_updates ex_model (cbow ex_ft ex_model (1 / 2) [0, 1, 2]) ! 1) = (1, 1 / 2)"
    by simp
  from inst w have eq: "set (fst (new_updates ex_model (cbow ex_ft ex_model (1 / 2) [0, 1, 2]) ! 1))
      = (\<Union>p\<in>context_positions (length [0, 1, 2::int]) 1 (radius ex_ft ex_model 1).
         set (getNgrams (ft_dict ex_ft) ([0, 1, 2] ! p)))"
    by blast
  have ev: "set (fst (new_updates ex_model (cbow ex_ft ex_model (1 / 2) [0, 1, 2]) ! 1))
      = {0, 10, 2, 12}"
    by (simp add: ex_cbow)
  from eq [symmetric] ev
  have ctx: "(\<Union>p\<in>context_positions (length [0, 1, 2::int]) 1 (radius ex_ft ex_model 1).
         set (getNgrams (ft_dict ex_ft) ([0, 1, 2] ! p))) = {0, 10, 2, 12}"
    by (rule trans)
  from inst ws have "1 \<le> radius ex_ft ex_model 1 \<and> radius ex_ft ex_model 1 \<le> ws (ft_args ex_ft)"
    by blast
  then have r: "1 \<le> radius ex_ft ex_model 1 \<and> radius ex_ft ex_model 1 \<le> 2"
    by (simp add: ex_defs)
  from len tgt ctx r show ?thesis by blast
qed

subsection \<open>Skip-gram against CBOW\<close>



text \<open>The boundary case left out above: on a line of one position skip-gram makes no update.\<close>

lemma skipgram_single_position:
  "new_updates mdl (skipgram ft mdl rate [t]) = []
   \<and> length (new_updates mdl (cbow ft mdl rate [t])) = 1"
  by (auto simp: skipgram_new_updates cbow_new_updates skipgram_pairs_def in_window_def
      filter_empty_conv)


subsection \<open>Evaluation\<close>

text \<open>
  Claim C7, within the range of the 32-bit counters. For every labelled stream on which
  they do not overflow (the number of examples, the total number of labels and
  \<open>k * nExamples\<close> stay below \<open>2 ^ 31\<close>), \<^verbatim>\<open>test\<close> counts as examples exactly the lines that have both tokens and
  labels, counts one true positive for each prediction returned for such a line that is
  among the line's labels, and reports precision \<open>tp / (k * nExamples)\<close>, recall
  \<open>tp / totalLabels\<close> (the labels of the counted lines) and the number of examples.
  In particular, when there is at least one example, every example has exactly one label
  and the single prediction for \<open>k = 1\<close> is that label, both values are 1.
\<close>

theorem test_precision_recall:
  "(int (length (counted (read_examples ft inp (rng (ft_model ft))))) < 2 ^ 31
      \<and> (\<Sum>ex\<leftarrow>counted (read_examples ft inp (rng (ft_model ft))). int (length (snd ex))) < 2 ^ 31
      \<and> - (2 ^ 31) \<le> k * int (length (counted (read_examples ft inp (rng (ft_model ft)))))
      \<and> k * int (length (counted (read_examples ft inp (rng (ft_model ft))))) < 2 ^ 31
    \<longrightarrow> test P ft inp k =
     (let exs = counted (read_examples ft inp (rng (ft_model ft)));
          tp = real (\<Sum>ex\<leftarrow>exs. true_positives P k ex)
      in test_report k (fdiv tp (k * int (length exs)))
           (fdiv tp (\<Sum>ex\<leftarrow>exs. int (length (snd ex)))) (int (length exs))))
   \<and> (counted (read_examples ft inp (rng (ft_model ft))) \<noteq> []
        \<and> int (length (counted (read_examples ft inp (rng (ft_model ft))))) < 2 ^ 31
        \<and> (\<forall>ex\<in>set (counted (read_examples ft inp (rng (ft_model ft)))).
              \<exists>l s. snd ex = [l] \<and> P (fst ex) 1 = [(s, l)])
      \<longrightarrow> test P ft inp 1 =
            test_report 1 (Num 1) (Num 1)
              (int (length (counted (read_examples ft inp (rng (ft_model ft)))))))"
proof (intro conjI impI)
  assume "int (length (counted (read_examples ft inp (rng (ft_model ft))))) < 2 ^ 31
      \<and> (\<Sum>ex\<leftarrow>counted (read_examples ft inp (rng (ft_model ft))). int (length (snd ex))) < 2 ^ 31
      \<and> - (2 ^ 31) \<le> k * int (length (counted (read_examples ft inp (rng (ft_model ft)))))
      \<and> k * int (length (counted (read_examples ft inp (rng (ft_model ft))))) < 2 ^ 31"
  then show "test P ft inp k =
     (let exs = counted (read_examples ft inp (rng (ft_model ft)));
          tp = real (\<Sum>ex\<leftarrow>exs. true_positives P k ex)
      in test_report k (fdiv tp (k * int (length exs)))
           (fdiv tp (\<Sum>ex\<leftarrow>exs. int (length (snd ex)))) (int (length exs)))"
    by (intro test_in_range) simp_all
next
  let ?exs = "counted (read_examples ft inp (rng (ft_model ft)))"
  assume a: "?exs \<noteq> [] \<and> int (length ?exs) < 2 ^ 31
      \<and> (\<forall>ex\<in>set ?exs. \<exists>l s. snd ex = [l] \<and> P (fst ex) 1 = [(s, l)])"
  then have sums: "(\<Sum>ex\<leftarrow>?exs. true_positives P 1 ex) = length ?exs"
    "(\<Sum>ex\<leftarrow>?exs. int (length (snd ex))) = int (length ?exs)"
    using all_correct_sums [of ?exs P] by simp_all
  from a have pos: "length ?exs \<noteq> 0" and lt: "int (length ?exs) < 2 ^ 31" by simp_all
  from lt have "test P ft inp 1 =
     (let exs = ?exs; tp = real (\<Sum>ex\<leftarrow>exs. true_positives P 1 ex)
      in test_report 1 (fdiv tp (1 * int (length exs)))
           (fdiv tp (\<Sum>ex\<leftarrow>exs. int (length (snd ex)))) (int (length exs)))"
    by (intro test_in_range) (simp_all add: sums)
  then show "test P ft inp 1 = test_report 1 (Num 1) (Num 1) (int (length ?exs))"
    unfolding Let_def sums using pos by (simp add: fdiv_def)
qed

theorem test_precision_recall_witness:
  "test ex_predict ex_ft [''a x'', ''b y'', ''a b'', ''''] 1 = test_report 1 (Num 1) (Num 1) 2"
proof -
  note inst = test_precision_recall [of ex_ft "[''a x'', ''b y'', ''a b'', '''']" 1 ex_predict,
      unfolded ex_counted]
  have "[([0], [2]), ([1], [3::int])] \<noteq> []
      \<and> int (length [([0::int], [2::int]), ([1], [3])]) < 2 ^ 31
      \<and> (\<forall>ex\<in>set [([0], [2]), ([1], [3::int])].
          \<exists>l s. snd ex = [l] \<and> ex_predict (fst ex) 1 = [(s, l)])"
    by (simp add: ex_predict_def)
  with inst [THEN conjunct2] have "test ex_predict ex_ft [''a x'', ''b y'', ''a b'', []] 1 =
      test_report 1 (Num 1) (Num 1) (int (length [([0::int], [2::int]), ([1], [3])]))"
    by (rule mp)
  then show ?thesis by simp
qed

text \<open>
  The claim as it was stated fails on the stream without any example, where every example
  is predicted correctly and \<^verbatim>\<open>test\<close> prints NaN twice; and on two examples with
  \<open>k = 2 ^ 30\<close>, where \<open>k * nExamples\<close> wraps to \<open>- (2 ^ 31)\<close> and the precision printed is
  negative.
\<close>

theorem test_precision_recall_fails:
  "counted (read_examples ex_ft [] (rng (ft_model ex_ft))) = []
   \<and> test ex_predict ex_ft [] 1 = test_report 1 NaN NaN 0
   \<and> counted (read_examples ex_ft [''a x'', ''b y''] (rng (ft_model ex_ft)))
       = [([0], [2]), ([1], [3])]
   \<and> test ex_predict ex_ft [''a x'', ''b y''] (2 ^ 30)
       = test_report (2 ^ 30) (Num (- (1 / 2 ^ 30))) (Num 1) 2"
proof -
  have c: "counted (read_examples ex_ft [''a x'', ''b y''] g) = [([0], [2]), ([1], [3])]" for g
    by (simp add: counted_def ex_ft_def ex_dict_def ex_args_def ex_getLine_def)
  have "test ex_predict ex_ft [] 1 = test_report 1 NaN NaN 0"
    by (simp add: test_eq counted_def fdiv_def wrap32_def)
  moreover have "test ex_predict ex_ft [''a x'', ''b y''] (2 ^ 30)
       = test_report (2 ^ 30) (Num (- (1 / 2 ^ 30))) (Num 1) 2"
    unfolding test_eq Let_def c
    by (simp add: true_positives_def ex_predict_def fdiv_def wrap32_def)
  moreover have "counted (read_examples ex_ft [] (rng (ft_model ex_ft))) = []"
    by (simp add: counted_def)
  moreover note c [of "rng (ft_model ex_ft)"]
  ultimately show ?thesis by blast
qed

text \<open>
  Claim C10. When no line of the stream has both tokens and labels, \<^verbatim>\<open>test\<close> divides zero by
  zero twice (\<open>0.0 / (k * 0)\<close> and \<open>0.0 / 0\<close>): it prints NaN for precision and for recall,
  and 0 for the number of examples.
\<close>

theorem test_no_examples_nan:
  assumes "counted (read_examples ft inp (rng (ft_model ft))) = []"
  shows "test P ft inp k = test_report k NaN NaN 0"
  unfolding test_eq Let_def assms by (simp add: fdiv_def wrap32_def)

theorem test_no_examples_nan_witness:
  "test ex_predict ex_ft [''a b'', ''''] 1 = test_report 1 NaN NaN 0"
  by (rule test_no_examples_nan [of ex_ft "[''a b'', '''']" ex_predict 1, OF ex_counted_none])

subsection \<open>Streaming prediction\<close>

text \<open>
  A line without words leaves \<open>predictions\<close> as it was: the early return of \<open>predict_into\<close>
  comes before \<^verbatim>\<open>predictions.clear()\<close>.
\<close>

lemma predict_into_no_words:
  assumes "getLine (ft_dict ft) l g = ((n, words0, labels), g')"
    and "addNgrams (ft_dict ft) words0 (wordNgrams (ft_args ft)) = []"
  shows "predict_into Model_predict ft l k predictions g = (predictions, g')"
  using assms by (simp add: predict_into_def)

text \<open>
  Claim C2. In the streaming mode, an input line that yields no words should print exactly
  \<open>n/a\<close>, whatever the earlier lines produced. The code does not: after a line that was
  given a prediction, a line without words prints that prediction again. Here the stream
  is the line \<open>a x\<close> followed by an empty line.
\<close>

theorem predict_stale_after_empty_line:
  "predict ex_predict ex_ft [''a x'', ''''] 1 False = [Str ''x'', Endl, Str ''x'', Endl]"
  by (simp add: predict_def predict_into_def ex_ft_def ex_dict_def ex_args_def ex_getLine_def
      ex_predict_def)

text \<open>With the two lines in the other order the empty line does print \<open>n/a\<close>.\<close>

lemma predict_first_line_empty:
  "predict ex_predict ex_ft ['''', ''a x''] 1 False = [Str ''n/a'', Endl, Str ''x'', Endl]"
  by (simp add: predict_def predict_into_def ex_ft_def ex_dict_def ex_args_def ex_getLine_def
      ex_predict_def)

subsection \<open>Persistence\<close>

text \<open>
  Claim C8. \<^verbatim>\<open>saveModel\<close> writes the configuration, the vocabulary, the input matrix and the
  output matrix, in that order, and \<^verbatim>\<open>loadModel\<close> reads them back in the same order: when the
  serializers give back the four parts of the saved object, loading the file that
  \<^verbatim>\<open>saveModel\<close> wrote consumes it to its end and gives an object with the objective selector,
  the vocabulary and the two matrices of the saved one, and an optimizer over these
  matrices, seeded with 0, whose target counts are the label counts of the vocabulary
  (supervised) or its word counts (otherwise); and on the loaded object \<^verbatim>\<open>getVector\<close> gives,
  for every word, the vector it gives on the saved one.
\<close>

theorem save_load_roundtrip:
  assumes "parts_round_trip c ft"
  shows "\<exists>bytes ft'.
      saveModel c ft True = Inr bytes
    \<and> bytes = save_Args c (ft_args ft) @ save_Dictionary c (ft_dict ft)
                @ save_Matrix c (ft_input ft) @ save_Matrix c (ft_output ft)
    \<and> loadModel c seeded (Some bytes) = Inr (ft', [])
    \<and> model (ft_args ft') = model (ft_args ft)
    \<and> ft_dict ft' = ft_dict ft \<and> ft_input ft' = ft_input ft \<and> ft_output ft' = ft_output ft
    \<and> wi (ft_model ft') = ft_input ft \<and> wo (ft_model ft') = ft_output ft
    \<and> margs (ft_model ft') = ft_args ft'
    \<and> rng (ft_model ft') = seeded 0
    \<and> targetCounts (ft_model ft')
        = (if model (ft_args ft) = model_sup then getCounts (ft_dict ft) entry_label
           else getCounts (ft_dict ft) entry_word)
    \<and> (\<forall>vec w. getVector ft' vec w = getVector ft vec w)"
proof -
  let ?bytes = "save_Args c (ft_args ft) @ save_Dictionary c (ft_dict ft)
      @ save_Matrix c (ft_input ft) @ save_Matrix c (ft_output ft)"
  let ?ft' = "fst (loadModel_stream c seeded ?bytes)"
  note ld = loadModel_stream_saved [OF assms, of seeded "[]"]
  from assms have ma: "model (fst (load_Args c ?bytes)) = model (ft_args ft)"
    by (simp add: parts_round_trip_def)
  have "saveModel c ft True = Inr ?bytes"
    by (simp add: saveModel_def)
  moreover have "loadModel c seeded (Some ?bytes) = Inr (?ft', [])"
    using ld by (simp add: loadModel_def)
  moreover have "model (ft_args ?ft') = model (ft_args ft)"
    using ld ma by simp
  moreover have "ft_dict ?ft' = ft_dict ft" "ft_input ?ft' = ft_input ft"
    "ft_output ?ft' = ft_output ft"
    using ld by simp_all
  moreover have "wi (ft_model ?ft') = ft_input ft" "wo (ft_model ?ft') = ft_output ft"
    "margs (ft_model ?ft') = ft_args ?ft'" "rng (ft_model ?ft') = seeded 0"
    using ld by (simp_all add: setTargetCounts_def Model_new_def)
  moreover have "targetCounts (ft_model ?ft')
        = (if model (ft_args ft) = model_sup then getCounts (ft_dict ft) entry_label
           else getCounts (ft_dict ft) entry_word)"
    using ld by (simp add: setTargetCounts_def)
  moreover have "\<forall>vec w. getVector ?ft' vec w = getVector ft vec w"
    using ld by (simp add: getVector_def)
  ultimately show ?thesis by blast
qed

theorem save_load_roundtrip_witness:
  "parts_round_trip ex_serializers ex_ft
   \<and> saveModel ex_serializers ex_ft True
       = Inr [2, 2, 1, 1, 0, 1, 3, 4, 2, 5, 4, 2, 3, 1, 2, 2, 1, 2, 3, 4, 2, 2, 0, 0, 0, 0]
   \<and> loadModel ex_serializers (\<lambda>seed. sconst 0)
         (Some [2, 2, 1, 1, 0, 1, 3, 4, 2, 5, 4, 2, 3, 1, 2, 2, 1, 2, 3, 4, 2, 2, 0, 0, 0, 0])
       = Inr (ex_ft_loaded, [])
   \<and> ft_args ex_ft_loaded \<noteq> ft_args ex_ft
   \<and> targetCounts (ft_model ex_ft_loaded) = [3, 1]
   \<and> getVector ex_ft [7, 7] ''ab'' = Some [2, 3]
   \<and> getVector ex_ft_loaded [7, 7] ''ab'' = Some [2, 3]"
proof -
  from save_load_roundtrip [OF ex_parts_round_trip, of "\<lambda>seed. sconst 0"]
  obtain bytes ft' where sv: "saveModel ex_serializers ex_ft True = Inr bytes"
    and ld: "loadModel ex_serializers (\<lambda>seed. sconst 0) (Some bytes) = Inr (ft', [])"
    and tc: "targetCounts (ft_model ft')
        = (if model (ft_args ex_ft) = model_sup then getCounts (ft_dict ex_ft) entry_label
           else getCounts (ft_dict ex_ft) entry_word)"
    and gv: "\<forall>vec w. getVector ft' vec w = getVector ex_ft vec w"
    by blast
  from sv have bytes:
    "bytes = [2, 2, 1, 1, 0, 1, 3, 4, 2, 5, 4, 2, 3, 1, 2, 2, 1, 2, 3, 4, 2, 2, 0, 0, 0, 0]"
    by (simp add: ex_saveModel)
  from ld have ft': "ft' = ex_ft_loaded"
    unfolding bytes ex_loadModel by simp
  from tc have tc': "targetCounts (ft_model ex_ft_loaded) = [3, 1]"
    by (simp add: ft' ex_ft_def ex_args_def ex_dict_def)
  have g: "getVector ex_ft [7, 7] ''ab'' = Some [2, 3]"
    using getVector_loop_sum [of "[0, 1]" ex_input "[0, 0]"]
    by (simp add: getVector_def ex_ft_def ex_dict_def Vector_zero_def Vector_mul_def
        ex_input_def upt_rec)
  from gv have g': "getVector ex_ft_loaded [7, 7] ''ab'' = Some [2, 3]"
    by (simp add: ft' g)
  have ne: "ft_args ex_ft_loaded \<noteq> ft_args ex_ft"
    by (simp add: ex_ft_loaded_def ex_ft_def ex_args_loaded_def ex_args_def)
  from ex_parts_round_trip ex_saveModel ex_loadModel ne tc' g g' show ?thesis by blast
qed

subsection \<open>Learning-rate schedule\<close>

text \<open>
  Claim C5 (the learning rate of an update is \<open>lr * (1 - progress)\<close> for the progress
  \<open>tokenCount / (epoch * ntokens)\<close> read when the iteration starts, the loop continues only
  while \<open>tokenCount < epoch * ntokens\<close>, and the progress stays in \<open>[0, 1]\<close>), on the code.
  The comment of line 263 gives the progress as a value between 0 and 1 as well, but line
  263 reads \<^verbatim>\<open>tokenCount\<close> again after the loop test of line 262 has read it, and the other
  workers add to it in between. With three workers, a budget \<open>epoch * ntokens = 4\<close> and
  lines of two tokens: worker 0 passes the loop test on the counter 0; worker 1 makes two
  iterations (the counter is 2, then 4); worker 2, which passed the test on the counter
  2, makes one (the counter is 6); worker 0 then reads the counter 6 for its progress. It
  runs its iteration while \<open>tokenCount \<ge> epoch * ntokens\<close>, with the progress \<open>3/2\<close>, makes
  its update with the learning rate \<open>- 1/20\<close>, and reports the progress \<open>3/2\<close>.
\<close>

theorem trainThread_progress_race:
  "thread (ft_args ex_ft3) = 3
   \<and> lr (ft_args ex_ft3) = 1 / 10
   \<and> trainThread_budget ex_ft3 = 4
   \<and> tokenCount ex_start = 0
   \<and> map pc (workers ex_start) = [pc_test, pc_test, pc_test]
   \<and> tokenCount (train_run ex_ft3 [0] ex_start) = 0
   \<and> map pc (workers (train_run ex_ft3 [0] ex_start)) = [pc_read, pc_test, pc_test]
   \<and> tokenCount (train_run ex_ft3 [0, 1, 1, 1, 1, 2, 1, 1, 2, 2] ex_start) = 6
   \<and> map pc (workers (train_run ex_ft3 [0, 1, 1, 1, 1, 2, 1, 1, 2, 2] ex_start))
       = [pc_read, pc_test, pc_test]
   \<and> wprogress (workers (train_run ex_ft3 [0, 1, 1, 1, 1, 2, 1, 1, 2, 2, 0] ex_start) ! 0)
       = 3 / 2
   \<and> updates (wmodel (workers (train_run ex_ft3 [0, 1, 1, 1, 1, 2, 1, 1, 2, 2, 0] ex_start) ! 0))
       = [([0], 2, - (1 / 20))]
   \<and> reports (workers (train_run ex_ft3 [0, 1, 1, 1, 1, 2, 1, 1, 2, 2, 0, 0] ex_start) ! 0)
       = [3 / 2]"
  by (simp add: trainThread_budget_def wrap64_def ex_start_def train_start_def trainThread_init_def train_step_def
      trainThread_step_def ex_ft3_def ex_ft_def ex_args_def ex_dict_def ex_getLine_def
      supervised_def uniform_def Model_update_def Model_new_def setTargetCounts_def Let_def
      upt_rec)

end
